theory Spec2Isabelle
  imports Main "HOL-Library.Word"
begin

unbundle bit_operations_syntax

section \<open>Data model of the morph client\<close>

text \<open>
  The embedded code is package \<open>client\<close>: the \<open>Client\<close> wrapper over the neo-go web
  socket client, its fact cache, the invocation methods, the auxiliary read methods and
  the switch to inactive mode.

  Go's fixed-width integers are words: \<open>int64\<close>, \<open>uint64\<close> and \<open>fixedn.Fixed8\<close> are
  \<open>64 word\<close> (read with \<open>sint\<close> or \<open>uint\<close>), \<open>uint32\<close> is \<open>32 word\<close>; \<open>+\<close> wraps as in Go.
  \<open>*big.Int\<close> is \<open>int\<close>. \<open>util.Uint160\<close> and \<open>util.Uint256\<close> are byte arrays and are kept
  as their big-endian bytes.
\<close>

type_synonym byte = "8 word"
type_synonym int64 = "64 word"
type_synonym uint64 = "64 word"
type_synonym uint32 = "32 word"
type_synonym Fixed8 = "64 word"

datatype Uint160 = Uint160 (BytesBE: "byte list")
datatype Uint256 = Uint256 "byte list"
datatype PublicKey = PublicKey (Bytes: "byte list")

text \<open>
  A value passed as \<open>interface{}\<close> to \<open>Invoke\<close>, \<open>TestInvoke\<close> and \<open>toStackParameter\<close>:
  one constructor for each dynamic type the type switch of \<open>toStackParameter\<close> names, and
  \<open>ArgOther\<close> for a value of any other dynamic type (it carries the value's rendering).
  \<open>keys.PublicKeys\<close> is a slice of pointers \<open>[]*PublicKey\<close>: an element is a key or
  \<open>nil\<close>, here \<open>None\<close>.
\<close>

datatype arg =
    ArgBytes "byte list"
  | ArgInt int64
  | ArgInt64 int64
  | ArgUint64 uint64
  | ArgBytesArray "byte list list"
  | ArgString string
  | ArgUint160 Uint160
  | ArgRole byte
  | ArgPublicKeys "PublicKey option list"
  | ArgBool bool
  | ArgOther string

datatype ParamType = ByteArrayType | IntegerType | ArrayType | StringType | BoolType

datatype Parameter = Parameter (Type: ParamType) (Value: ParamValue)
  and ParamValue =
    ValBytes "byte list"
  | ValBigInt int
  | ValArray "Parameter list"
  | ValString string
  | ValBool bool

text \<open>
  Errors are values. \<open>NeofsError\<close> is the wrapper type \<open>neofsError\<close>,
  \<open>NotHaltStateError state exception\<close> is \<open>notHaltStateError\<close>, \<open>Errorf p e\<close> is
  \<open>fmt.Errorf(p + ": %w", e)\<close>, \<open>UnsupportedParameter v\<close> is the error made by
  \<open>fmt.Errorf("chain/client: unsupported parameter %v", v)\<close>, and \<open>EndpointError\<close> is an
  error returned by the RPC endpoint.
\<close>

datatype error =
    ErrNilClient
  | ErrConnectionLost
  | ErrEmptyInvocationScript
  | NotHaltStateError string string
  | UnsupportedParameter arg
  | NeofsError error
  | Errorf string error
  | EndpointError string

text \<open>A Go panic: \<open>panic(err)\<close> with an error, or a panic of the runtime.\<close>

datatype panic = PanicError error | RuntimeError string

datatype 'a outcome = Returns 'a | Panics panic

datatype wallet_Account = wallet_Account (GetScriptHash: Uint160)

record Signer =
  Account :: Uint160
  Scopes :: byte
  AllowedContracts :: "Uint160 list"
  AllowedGroups :: "PublicKey list"

datatype SignerAccount = SignerAccount Signer wallet_Account

datatype Item = ItemBytes "byte list" | ItemInteger int | ItemBool bool | ItemArray "Item list"

text \<open>\<open>result.Invoke\<close>, the execution report of \<open>InvokeFunction\<close> and \<open>InvokeScript\<close>.\<close>

record Invoke_result =
  State :: string
  GasConsumed :: int64
  Script :: "byte list"
  Stack :: "Item list"
  FaultException :: string

text \<open>The application log of a transaction: the VM state of each execution.\<close>

record AppExecResult =
  Executions :: "byte list"

record Version =
  MillisecondsPerBlock :: int64

section \<open>Observable events\<close>

text \<open>
  Everything a method does besides returning is an event appended to a history: taking
  and releasing a lock, a request sent to the RPC endpoint, a log line, a sleep, closing
  the notification channel, calling the inactive-mode callback.
\<close>

datatype mutex = SwitchLock | CacheM

datatype rpc =
    InvokeFunction Uint160 string "Parameter list" "Signer list"
  | SignAndPushInvocationTx "byte list" wallet_Account int64 Fixed8 "SignerAccount list"
  | GetNativeContractHash string
  | TransferNEP17 wallet_Account Uint160 Uint160 int64 int64
  | GetBlockCount
  | NEP17BalanceOf Uint160 Uint160
  | GetCommittee
  | GetApplicationLog Uint256 byte
  | GetTransactionHeight Uint256
  | GetDesignatedByRole byte uint32
  | GetNetwork
  | GetVersion
  | InvokeScript "byte list" "Signer list"

datatype event =
    RLock mutex
  | RUnlock mutex
  | Lock mutex
  | Unlock mutex
  | Rpc rpc
  | LogDebug string
  | LogError string error
  | Sleep nat
  | CloseNotifications
  | InactiveModeCb

type_synonym history = "event list"

text \<open>
  The RPC endpoint \<open>client.WSClient\<close> is outside the repository. Each of its methods is a
  function of the request and of the history so far, so that the same request may be
  answered differently at different moments (the chain grows between two height
  queries).
\<close>

record WSClient =
  invokeFunction :: "Uint160 \<Rightarrow> string \<Rightarrow> Parameter list \<Rightarrow> Signer list \<Rightarrow> history \<Rightarrow> error + Invoke_result"
  signAndPushInvocationTx :: "byte list \<Rightarrow> wallet_Account \<Rightarrow> int64 \<Rightarrow> Fixed8 \<Rightarrow> SignerAccount list \<Rightarrow> history \<Rightarrow> error + Uint256"
  getNativeContractHash :: "string \<Rightarrow> history \<Rightarrow> error + Uint160"
  transferNEP17 :: "wallet_Account \<Rightarrow> Uint160 \<Rightarrow> Uint160 \<Rightarrow> int64 \<Rightarrow> int64 \<Rightarrow> history \<Rightarrow> error + Uint256"
  getBlockCount :: "history \<Rightarrow> error + uint32"
  nep17BalanceOf :: "Uint160 \<Rightarrow> Uint160 \<Rightarrow> history \<Rightarrow> error + int64"
  getCommittee :: "history \<Rightarrow> error + PublicKey list"
  getApplicationLog :: "Uint256 \<Rightarrow> byte \<Rightarrow> history \<Rightarrow> error + AppExecResult"
  getTransactionHeight :: "Uint256 \<Rightarrow> history \<Rightarrow> error + uint32"
  getDesignatedByRole :: "byte \<Rightarrow> uint32 \<Rightarrow> history \<Rightarrow> error + PublicKey list"
  getNetwork :: "history \<Rightarrow> error + uint32"
  getVersion :: "history \<Rightarrow> error + Version"
  invokeScript :: "byte list \<Rightarrow> Signer list \<Rightarrow> history \<Rightarrow> error + Invoke_result"

section \<open>The fact cache\<close>

text \<open>
  \<open>txHeights\<close> is an LRU cache of bounded size from transaction hash to height: its
  capacity and its entries, most recent first.
\<close>

record lru_Cache =
  size_lru :: nat
  items :: "(Uint256 \<times> uint32) list"

record cache =
  nnsHash :: "Uint160 option"
  gKey :: "PublicKey option"
  txHeights :: lru_Cache

text \<open>
  The struct \<open>cache\<close> holds a pointer \<open>m\<close> to its mutex beside the three fields above.
  Every copy of the struct points to the same mutex, so the mutex lives in the shared
  memory next to the struct of the client, and a value of type \<open>cache\<close> is the three
  fields. \<open>sync.RWMutex\<close> is kept as the facts that decide who may enter: whether a
  writer holds it and how many readers do.
\<close>

record RWMutex =
  writer :: bool
  readers :: nat

record memory =
  shared :: cache
  m :: RWMutex
  events :: history

definition Purge :: "lru_Cache \<Rightarrow> lru_Cache" where
  "Purge l = l\<lparr>items := []\<rparr>"

text \<open>
  The methods of the cache are run by goroutines that share the memory, so each
  method is the list of its steps, in program order. A method with a value receiver
  (\<open>func (c cache) nns()\<close>, \<open>func (c cache) groupKey()\<close>) starts by copying the struct
  it is called on: that is the step \<open>CopyReceiver\<close>, and the later steps of the method
  read the copy. A method with a pointer receiver (\<open>setNNSHash\<close>, \<open>setGroupKey\<close>,
  \<open>invalidate\<close>) writes the shared struct. With \<open>defer c.m.RUnlock()\<close> the returned
  value is evaluated before the lock is released.
\<close>

datatype instr =
    CopyReceiver
  | M_RLock
  | M_RUnlock
  | M_Lock
  | M_Unlock
  | Return_nnsHash
  | Return_gKey
  | Store_nnsHash "Uint160 option"
  | Store_gKey "PublicKey option"
  | Purge_txHeights

definition nns :: "instr list" where
  "nns = [CopyReceiver, M_RLock, Return_nnsHash, M_RUnlock]"

definition setNNSHash :: "Uint160 \<Rightarrow> instr list" where
  "setNNSHash v = [M_Lock, Store_nnsHash (Some v), M_Unlock]"

definition groupKey :: "instr list" where
  "groupKey = [CopyReceiver, M_RLock, Return_gKey, M_RUnlock]"

definition setGroupKey :: "PublicKey option \<Rightarrow> instr list" where
  "setGroupKey k = [M_Lock, Store_gKey k, M_Unlock]"

definition invalidate :: "instr list" where
  "invalidate = [M_Lock, Store_nnsHash None, Store_gKey None, Purge_txHeights, M_Unlock]"

text \<open>
  A goroutine inside a call: the steps it still has to run, the copy of its receiver
  (once made) and the fact it returns (once evaluated).
\<close>

datatype fact = Fact_nnsHash "Uint160 option" | Fact_gKey "PublicKey option"

record goroutine =
  todo :: "instr list"
  receiver_copy :: "cache option"
  returned :: "fact option"

definition call :: "instr list \<Rightarrow> goroutine" where
  "call method_steps = \<lparr>todo = method_steps, receiver_copy = None, returned = None\<rparr>"

text \<open>
  One step of one goroutine. \<open>None\<close> is a step that cannot be taken now: \<open>RLock\<close>
  waits while a writer holds the mutex, \<open>Lock\<close> waits while a writer or a reader
  holds it.
\<close>

fun exec :: "instr \<Rightarrow> memory \<Rightarrow> goroutine \<Rightarrow> (memory \<times> goroutine) option" where
  "exec CopyReceiver mem g = Some (mem, g\<lparr>receiver_copy := Some (shared mem)\<rparr>)"
| "exec M_RLock mem g =
     (if writer (m mem) then None
      else Some (mem\<lparr>m := (m mem)\<lparr>readers := Suc (readers (m mem))\<rparr>,
                     events := events mem @ [RLock CacheM]\<rparr>, g))"
| "exec M_RUnlock mem g =
     (if readers (m mem) = 0 then None
      else Some (mem\<lparr>m := (m mem)\<lparr>readers := readers (m mem) - 1\<rparr>,
                     events := events mem @ [RUnlock CacheM]\<rparr>, g))"
| "exec M_Lock mem g =
     (if writer (m mem) then None
      else if 0 < readers (m mem) then None
      else Some (mem\<lparr>m := (m mem)\<lparr>writer := True\<rparr>,
                     events := events mem @ [Lock CacheM]\<rparr>, g))"
| "exec M_Unlock mem g =
     (if writer (m mem)
      then Some (mem\<lparr>m := (m mem)\<lparr>writer := False\<rparr>,
                     events := events mem @ [Unlock CacheM]\<rparr>, g)
      else None)"
| "exec Return_nnsHash mem g =
     (case receiver_copy g of
        None \<Rightarrow> None
      | Some c \<Rightarrow> Some (mem, g\<lparr>returned := Some (Fact_nnsHash (nnsHash c))\<rparr>))"
| "exec Return_gKey mem g =
     (case receiver_copy g of
        None \<Rightarrow> None
      | Some c \<Rightarrow> Some (mem, g\<lparr>returned := Some (Fact_gKey (gKey c))\<rparr>))"
| "exec (Store_nnsHash v) mem g = Some (mem\<lparr>shared := (shared mem)\<lparr>nnsHash := v\<rparr>\<rparr>, g)"
| "exec (Store_gKey k) mem g = Some (mem\<lparr>shared := (shared mem)\<lparr>gKey := k\<rparr>\<rparr>, g)"
| "exec Purge_txHeights mem g =
     Some (mem\<lparr>shared := (shared mem)\<lparr>txHeights := Purge (txHeights (shared mem))\<rparr>\<rparr>, g)"

text \<open>
  The goroutines run interleaved: a schedule names, step by step, the goroutine that
  moves. A schedule that picks a goroutine which has returned or has to wait is not a
  run of the program, and gives \<open>None\<close>.
\<close>

definition step :: "memory \<times> goroutine list \<Rightarrow> nat \<Rightarrow> (memory \<times> goroutine list) option" where
  "step s i =
     (case s of (mem, gs) \<Rightarrow>
        if i < length gs then
          (case todo (gs ! i) of
             [] \<Rightarrow> None
           | ins # rest \<Rightarrow>
               (case exec ins mem ((gs ! i)\<lparr>todo := rest\<rparr>) of
                  None \<Rightarrow> None
                | Some (mem', g') \<Rightarrow> Some (mem', gs[i := g'])))
        else None)"

fun run :: "memory \<times> goroutine list \<Rightarrow> nat list \<Rightarrow> (memory \<times> goroutine list) option" where
  "run s [] = Some s"
| "run s (i # sched) = (case step s i of None \<Rightarrow> None | Some s' \<Rightarrow> run s' sched)"

text \<open>A memory with nobody inside the mutex, and a call that runs alone to its end.\<close>

definition memory_of :: "cache \<Rightarrow> memory" where
  "memory_of c = \<lparr>shared = c, m = \<lparr>writer = False, readers = 0\<rparr>, events = []\<rparr>"

definition alone :: "instr list \<Rightarrow> memory \<Rightarrow> (memory \<times> goroutine list) option" where
  "alone method_steps mem = run (mem, [call method_steps]) (replicate (length method_steps) 0)"

section \<open>The client\<close>

datatype chan = ChanOpen | ChanClosed

record cfg =
  waitInterval :: nat
  inactiveModeCb :: "unit option"

text \<open>
  The \<open>Client\<close> as built by its constructor: every pointer field is set. The fields no
  modelled method reads (logger handle, notary, endpoint list, stop channel, subscription
  bookkeeping) are left out; logging is an event.
\<close>

record Client =
  cache :: cache
  client :: WSClient
  acc :: wallet_Account
  signer :: Signer
  cfg :: cfg
  notifications :: chan
  inactive :: bool

definition HaltState :: string where
  "HaltState = ''HALT''"

definition wrapNeoFSError :: "error \<Rightarrow> error" where
  "wrapNeoFSError err = NeofsError err"

text \<open>
  Constants of the neo-go library that the methods pass on (\<open>transaction.Global\<close>,
  the names of the native contracts, the role \<open>noderoles.NeoFSAlphabet\<close>,
  \<open>trigger.Application\<close>, \<open>vm.HaltState\<close> and its \<open>HasFlag\<close>). They only label
  requests and results; no statement below depends on their values.
\<close>

definition Global :: byte where
  "Global = 0x80"

definition nativenames_Gas :: string where
  "nativenames_Gas = ''GasToken''"

definition nativenames_Designation :: string where
  "nativenames_Designation = ''RoleManagement''"

definition noderoles_NeoFSAlphabet :: byte where
  "noderoles_NeoFSAlphabet = 16"

definition trigger_Application :: byte where
  "trigger_Application = 0x40"

definition vm_HaltState :: byte where
  "vm_HaltState = 1"

definition HasFlag :: "byte \<Rightarrow> byte \<Rightarrow> bool" where
  "HasFlag s f = (s AND f \<noteq> 0)"

subsection \<open>Argument conversion\<close>

text \<open>
  Calling \<open>Bytes()\<close> on a \<open>nil\<close> key dereferences the pointer: the Go runtime panics.
  The loop of the \<open>keys.PublicKeys\<close> case collects the encodings of the keys and stops
  with that panic at the first \<open>nil\<close> element.
\<close>

definition nil_dereference :: panic where
  "nil_dereference = RuntimeError ''invalid memory address or nil pointer dereference''"

fun publicKeys_bytes :: "PublicKey option list \<Rightarrow> byte list list \<Rightarrow> byte list list outcome" where
  "publicKeys_bytes [] arr = Returns arr"
| "publicKeys_bytes (None # ks) arr = Panics nil_dereference"
| "publicKeys_bytes (Some k # ks) arr = publicKeys_bytes ks (arr @ [Bytes k])"

function (sequential) toStackParameter :: "arg \<Rightarrow> (error + Parameter) outcome"
  and toStackParameter_elems ::
    "byte list list \<Rightarrow> Parameter list \<Rightarrow> (error + Parameter list) outcome" where
  "toStackParameter (ArgBytes v) = Returns (Inr (Parameter ByteArrayType (ValBytes v)))"
| "toStackParameter (ArgInt v) = Returns (Inr (Parameter IntegerType (ValBigInt (sint v))))"
| "toStackParameter (ArgInt64 v) = Returns (Inr (Parameter IntegerType (ValBigInt (sint v))))"
| "toStackParameter (ArgUint64 v) = Returns (Inr (Parameter IntegerType (ValBigInt (uint v))))"
| "toStackParameter (ArgBytesArray v) =
     (case toStackParameter_elems v [] of
        Panics p \<Rightarrow> Panics p
      | Returns (Inl err) \<Rightarrow> Returns (Inl err)
      | Returns (Inr arr) \<Rightarrow> Returns (Inr (Parameter ArrayType (ValArray arr))))"
| "toStackParameter (ArgString v) = Returns (Inr (Parameter StringType (ValString v)))"
| "toStackParameter (ArgUint160 v) = Returns (Inr (Parameter ByteArrayType (ValBytes (BytesBE v))))"
| "toStackParameter (ArgRole v) = Returns (Inr (Parameter IntegerType (ValBigInt (uint v))))"
| "toStackParameter (ArgPublicKeys v) =
     (case publicKeys_bytes v [] of
        Panics p \<Rightarrow> Panics p
      | Returns arr \<Rightarrow> toStackParameter (ArgBytesArray arr))"
| "toStackParameter (ArgBool v) = Returns (Inr (Parameter BoolType (ValBool v)))"
| "toStackParameter (ArgOther s) =
     Returns (Inl (wrapNeoFSError (UnsupportedParameter (ArgOther s))))"
| "toStackParameter_elems [] arr = Returns (Inr arr)"
| "toStackParameter_elems (x # xs) arr =
     (case toStackParameter (ArgBytes x) of
        Panics p \<Rightarrow> Panics p
      | Returns (Inl err) \<Rightarrow> Returns (Inl err)
      | Returns (Inr elem) \<Rightarrow> toStackParameter_elems xs (arr @ [elem]))"
  by pat_completeness auto

termination
  by (relation "inv_image (less_than <*lex*> less_than) (\<lambda>x. case x of
          Inl (ArgPublicKeys v) \<Rightarrow> (3, 0)
        | Inl (ArgBytesArray v) \<Rightarrow> (2, 0)
        | Inl _ \<Rightarrow> (0, 0)
        | Inr (xs, _) \<Rightarrow> (Suc 0, length xs))") auto

text \<open>
  The loop of \<open>Invoke\<close> and \<open>TestInvoke\<close> over \<open>args\<close>: it stops at the first error, and
  a panic of a conversion ends it.
\<close>

fun toStackParameters :: "arg list \<Rightarrow> Parameter list \<Rightarrow> (error + Parameter list) outcome" where
  "toStackParameters [] params = Returns (Inr params)"
| "toStackParameters (a # as) params =
     (case toStackParameter a of
        Panics p \<Rightarrow> Panics p
      | Returns (Inl err) \<Rightarrow> Returns (Inl err)
      | Returns (Inr param) \<Rightarrow> toStackParameters as (params @ [param]))"

subsection \<open>Locking and requests\<close>

text \<open>
  \<open>c.switchLock.RLock(); defer c.switchLock.RUnlock()\<close>: the body runs between the two
  events; the deferred release also runs when the body panics.
\<close>

definition withRLock :: "(history \<Rightarrow> 'a \<times> history) \<Rightarrow> history \<Rightarrow> 'a \<times> history" where
  "withRLock body h =
     (case body (h @ [RLock SwitchLock]) of (r, h') \<Rightarrow> (r, h' @ [RUnlock SwitchLock]))"

text \<open>One request to the endpoint: its answer at the current history, and the event.\<close>

definition request :: "rpc \<Rightarrow> (history \<Rightarrow> error + 'a) \<Rightarrow> history \<Rightarrow> (error + 'a) \<times> history" where
  "request r answer h = (answer h, h @ [Rpc r])"

subsection \<open>Invocations\<close>

text \<open>
  The local variables \<open>cosigner\<close> and \<open>cosignerAcc\<close> of \<open>Invoke\<close>, and the \<open>cosigner\<close> of
  \<open>TestInvoke\<close> (only \<open>Account\<close> and \<open>Scopes\<close> are set there). A panic of the
  argument conversion ends \<open>Invoke\<close> and \<open>TestInvoke\<close>; the deferred unlock still runs.
\<close>

definition cosigner :: "Client \<Rightarrow> Signer list" where
  "cosigner c = [\<lparr>Account = GetScriptHash (acc c),
                  Scopes = Scopes (signer c),
                  AllowedContracts = AllowedContracts (signer c),
                  AllowedGroups = AllowedGroups (signer c)\<rparr>]"

definition cosignerAcc :: "Client \<Rightarrow> SignerAccount list" where
  "cosignerAcc c = [SignerAccount (hd (cosigner c)) (acc c)]"

definition cosigner_test :: "Client \<Rightarrow> Signer list" where
  "cosigner_test c = [\<lparr>Account = GetScriptHash (acc c),
                       Scopes = Global,
                       AllowedContracts = [],
                       AllowedGroups = []\<rparr>]"

definition Invoke ::
  "Client \<Rightarrow> Uint160 \<Rightarrow> Fixed8 \<Rightarrow> string \<Rightarrow> arg list \<Rightarrow> history \<Rightarrow>
     (error + unit) outcome \<times> history" where
  "Invoke c contract fee method args = withRLock (\<lambda>h.
     if inactive c then (Returns (Inl ErrConnectionLost), h)
     else case toStackParameters args [] of
       Panics p \<Rightarrow> (Panics p, h)
     | Returns (Inl err) \<Rightarrow> (Returns (Inl err), h)
     | Returns (Inr params) \<Rightarrow>
        (case request (InvokeFunction contract method params (cosigner c))
                (invokeFunction (client c) contract method params (cosigner c)) h of
           (Inl err, h1) \<Rightarrow> (Returns (Inl err), h1)
         | (Inr resp, h1) \<Rightarrow>
             if State resp \<noteq> HaltState then
               (Returns (Inl (wrapNeoFSError
                  (NotHaltStateError (State resp) (FaultException resp)))), h1)
             else if length (Script resp) = 0 then
               (Returns (Inl (wrapNeoFSError ErrEmptyInvocationScript)), h1)
             else
               let script = Script resp;
                   sysFee = GasConsumed resp + fee
               in (case request (SignAndPushInvocationTx script (acc c) sysFee 0 (cosignerAcc c))
                         (signAndPushInvocationTx (client c) script (acc c) sysFee 0 (cosignerAcc c)) h1 of
                     (Inl err, h2) \<Rightarrow> (Returns (Inl err), h2)
                   | (Inr txHash, h2) \<Rightarrow>
                       (Returns (Inr ()), h2 @ [LogDebug ''neo client invoke'']))))"

definition TestInvoke ::
  "Client \<Rightarrow> Uint160 \<Rightarrow> string \<Rightarrow> arg list \<Rightarrow> history \<Rightarrow>
     (error + Item list) outcome \<times> history" where
  "TestInvoke c contract method args = withRLock (\<lambda>h.
     if inactive c then (Returns (Inl ErrConnectionLost), h)
     else case toStackParameters args [] of
       Panics p \<Rightarrow> (Panics p, h)
     | Returns (Inl err) \<Rightarrow> (Returns (Inl err), h)
     | Returns (Inr params) \<Rightarrow>
        (case request (InvokeFunction contract method params (cosigner_test c))
                (invokeFunction (client c) contract method params (cosigner_test c)) h of
           (Inl err, h1) \<Rightarrow> (Returns (Inl err), h1)
         | (Inr val, h1) \<Rightarrow>
             if State val \<noteq> HaltState then
               (Returns (Inl (wrapNeoFSError
                  (NotHaltStateError (State val) (FaultException val)))), h1)
             else (Returns (Inr (Stack val)), h1)))"

definition TransferGas :: "Client \<Rightarrow> Uint160 \<Rightarrow> Fixed8 \<Rightarrow> history \<Rightarrow> (error + unit) \<times> history" where
  "TransferGas c receiver amount = withRLock (\<lambda>h.
     if inactive c then (Inl ErrConnectionLost, h)
     else case request (GetNativeContractHash nativenames_Gas)
                 (getNativeContractHash (client c) nativenames_Gas) h of
       (Inl err, h1) \<Rightarrow> (Inl err, h1)
     | (Inr gas, h1) \<Rightarrow>
         (case request (TransferNEP17 (acc c) receiver gas amount 0)
                 (transferNEP17 (client c) (acc c) receiver gas amount 0) h1 of
            (Inl err, h2) \<Rightarrow> (Inl err, h2)
          | (Inr txHash, h2) \<Rightarrow> (Inr (), h2 @ [LogDebug ''native gas transfer invoke''])))"

subsection \<open>Waiting for blocks\<close>

text \<open>
  The caller's \<open>context.Context\<close>: whether \<open>ctx.Done()\<close> is closed when the loop looks at
  it, as a function of the history so far. The \<open>for\<close> loop has no bound of its own, so
  the model is a partial function: \<open>None\<close> is a loop that never returns.
\<close>

type_synonym Context = "history \<Rightarrow> bool"

partial_function (option) Wait_loop ::
  "Client \<Rightarrow> Context \<Rightarrow> uint32 \<Rightarrow> uint32 \<Rightarrow> history \<Rightarrow> ((error + unit) \<times> history) option" where
  "Wait_loop c ctx height n h =
     (if ctx h then Some (Inr (), h)
      else case request GetBlockCount (getBlockCount (client c)) h of
        (Inl err, h1) \<Rightarrow> Some (Inr (), h1 @ [LogError ''can't get blockchain height'' err])
      | (Inr newHeight, h1) \<Rightarrow>
          if newHeight \<ge> height + n then Some (Inr (), h1)
          else Wait_loop c ctx height n (h1 @ [Sleep (waitInterval (cfg c))]))"

declare Wait_loop.simps [code]

definition Wait_body :: "Client \<Rightarrow> Context \<Rightarrow> uint32 \<Rightarrow> history \<Rightarrow> ((error + unit) \<times> history) option" where
  "Wait_body c ctx n h =
     (if inactive c then Some (Inl ErrConnectionLost, h)
      else case request GetBlockCount (getBlockCount (client c)) h of
        (Inl err, h1) \<Rightarrow> Some (Inr (), h1 @ [LogError ''can't get blockchain height'' err])
      | (Inr height, h1) \<Rightarrow> Wait_loop c ctx height n h1)"

definition Wait :: "Client \<Rightarrow> Context \<Rightarrow> uint32 \<Rightarrow> history \<Rightarrow> ((error + unit) \<times> history) option" where
  "Wait c ctx n h =
     (case Wait_body c ctx n (h @ [RLock SwitchLock]) of
        None \<Rightarrow> None
      | Some (r, h') \<Rightarrow> Some (r, h' @ [RUnlock SwitchLock]))"

subsection \<open>Auxiliary read methods\<close>

definition GasBalance :: "Client \<Rightarrow> history \<Rightarrow> (error + int64) \<times> history" where
  "GasBalance c = withRLock (\<lambda>h.
     if inactive c then (Inl ErrConnectionLost, h)
     else case request (GetNativeContractHash nativenames_Gas)
                 (getNativeContractHash (client c) nativenames_Gas) h of
       (Inl err, h1) \<Rightarrow> (Inl err, h1)
     | (Inr gas, h1) \<Rightarrow>
         request (NEP17BalanceOf gas (GetScriptHash (acc c)))
           (nep17BalanceOf (client c) gas (GetScriptHash (acc c))) h1)"

definition Committee :: "Client \<Rightarrow> history \<Rightarrow> (error + PublicKey list) \<times> history" where
  "Committee c = withRLock (\<lambda>h.
     if inactive c then (Inl ErrConnectionLost, h)
     else request GetCommittee (getCommittee (client c)) h)"

definition TxHalt :: "Client \<Rightarrow> Uint256 \<Rightarrow> history \<Rightarrow> (error + bool) \<times> history" where
  "TxHalt c tx = withRLock (\<lambda>h.
     if inactive c then (Inl ErrConnectionLost, h)
     else case request (GetApplicationLog tx trigger_Application)
                 (getApplicationLog (client c) tx trigger_Application) h of
       (Inl err, h1) \<Rightarrow> (Inl err, h1)
     | (Inr aer, h1) \<Rightarrow>
         (Inr (case Executions aer of [] \<Rightarrow> False | s # _ \<Rightarrow> HasFlag s vm_HaltState), h1))"

definition TxHeight :: "Client \<Rightarrow> Uint256 \<Rightarrow> history \<Rightarrow> (error + uint32) \<times> history" where
  "TxHeight c tx = withRLock (\<lambda>h.
     if inactive c then (Inl ErrConnectionLost, h)
     else request (GetTransactionHeight tx) (getTransactionHeight (client c) tx) h)"

definition roleList :: "Client \<Rightarrow> byte \<Rightarrow> history \<Rightarrow> (error + PublicKey list) \<times> history" where
  "roleList c r h =
     (case request GetBlockCount (getBlockCount (client c)) h of
        (Inl err, h1) \<Rightarrow> (Inl (Errorf ''can't get chain height'' err), h1)
      | (Inr height, h1) \<Rightarrow>
          request (GetDesignatedByRole r height) (getDesignatedByRole (client c) r height) h1)"

definition NeoFSAlphabetList :: "Client \<Rightarrow> history \<Rightarrow> (error + PublicKey list) \<times> history" where
  "NeoFSAlphabetList c = withRLock (\<lambda>h.
     if inactive c then (Inl ErrConnectionLost, h)
     else case roleList c noderoles_NeoFSAlphabet h of
       (Inl err, h1) \<Rightarrow> (Inl (Errorf ''can't get alphabet nodes role list'' err), h1)
     | (Inr list, h1) \<Rightarrow> (Inr list, h1))"

definition GetDesignateHash :: "Client \<Rightarrow> history \<Rightarrow> (error + Uint160) \<times> history" where
  "GetDesignateHash c = withRLock (\<lambda>h.
     if inactive c then (Inl ErrConnectionLost, h)
     else request (GetNativeContractHash nativenames_Designation)
            (getNativeContractHash (client c) nativenames_Designation) h)"

definition MagicNumber :: "Client \<Rightarrow> history \<Rightarrow> (error + uint64) outcome \<times> history" where
  "MagicNumber c = withRLock (\<lambda>h.
     if inactive c then (Returns (Inl ErrConnectionLost), h)
     else case request GetNetwork (getNetwork (client c)) h of
       (Inl err, h1) \<Rightarrow> (Panics (PanicError err), h1)
     | (Inr mNum, h1) \<Rightarrow> (Returns (Inr (ucast mNum)), h1))"

definition BlockCount :: "Client \<Rightarrow> history \<Rightarrow> (error + uint32) \<times> history" where
  "BlockCount c = withRLock (\<lambda>h.
     if inactive c then (Inl ErrConnectionLost, h)
     else request GetBlockCount (getBlockCount (client c)) h)"

definition MsPerBlock :: "Client \<Rightarrow> history \<Rightarrow> (error + int64) \<times> history" where
  "MsPerBlock c = withRLock (\<lambda>h.
     if inactive c then (Inl ErrConnectionLost, h)
     else case request GetVersion (getVersion (client c)) h of
       (Inl err, h1) \<Rightarrow> (Inl (Errorf ''getVersion'' err), h1)
     | (Inr v, h1) \<Rightarrow> (Inr (MillisecondsPerBlock v), h1))"

definition IsValidScript ::
  "Client \<Rightarrow> byte list \<Rightarrow> Signer list \<Rightarrow> history \<Rightarrow> (error + bool) \<times> history" where
  "IsValidScript c script signers = withRLock (\<lambda>h.
     if inactive c then (Inl ErrConnectionLost, h)
     else case request (InvokeScript script signers) (invokeScript (client c) script signers) h of
       (Inl err, h1) \<Rightarrow> (Inl (Errorf ''invokeScript'' err), h1)
     | (Inr result, h1) \<Rightarrow> (Inr (State result = ''HALT''), h1))"

subsection \<open>Notification channel and inactive mode\<close>

definition NotificationChannel :: "Client \<Rightarrow> chan" where
  "NotificationChannel c = notifications c"

text \<open>
  \<open>close\<close> of a channel that is already closed panics in Go; the deferred \<open>Unlock\<close> still
  runs, and nothing after the \<open>close\<close> does.
\<close>

definition inactiveMode :: "Client \<Rightarrow> history \<Rightarrow> unit outcome \<times> Client \<times> history" where
  "inactiveMode c h =
     (let h1 = h @ [Lock SwitchLock] in
      case notifications c of
        ChanClosed \<Rightarrow>
          (Panics (RuntimeError ''close of closed channel''), c, h1 @ [Unlock SwitchLock])
      | ChanOpen \<Rightarrow>
          let c1 = c\<lparr>notifications := ChanClosed\<rparr>;
              h2 = h1 @ [CloseNotifications];
              c2 = c1\<lparr>inactive := True\<rparr>;
              h3 = (case inactiveModeCb (cfg c2) of
                      None \<Rightarrow> h2
                    | Some cb \<Rightarrow> h2 @ [InactiveModeCb])
          in (Returns (), c2, h3 @ [Unlock SwitchLock]))"

section \<open>Reading a history\<close>

text \<open>The requests of a history, in order, and the transactions pushed among them.\<close>

fun rpcs :: "history \<Rightarrow> rpc list" where
  "rpcs [] = []"
| "rpcs (Rpc r # es) = r # rpcs es"
| "rpcs (e # es) = rpcs es"

fun is_push :: "rpc \<Rightarrow> bool" where
  "is_push (SignAndPushInvocationTx script a sysFee netFee cosigners) = True"
| "is_push r = False"

fun is_height_query :: "rpc \<Rightarrow> bool" where
  "is_height_query GetBlockCount = True"
| "is_height_query r = False"

definition height_queries :: "history \<Rightarrow> nat" where
  "height_queries h = length (filter is_height_query (rpcs h))"

fun is_unsupported :: "arg \<Rightarrow> bool" where
  "is_unsupported (ArgOther s) = True"
| "is_unsupported a = False"

fun has_nil_key :: "arg \<Rightarrow> bool" where
  "has_nil_key (ArgPublicKeys v) = (None \<in> set v)"
| "has_nil_key a = False"

section \<open>Concrete clients\<close>

text \<open>
  Endpoints and clients on which the statements below are evaluated. \<open>node_ok\<close> answers
  every request; \<open>node_fault\<close> reports the state FAULT for every invocation;
  \<open>node_down\<close> fails every request; \<open>node_flaky\<close> answers the first height query with 5,
  fails the second one and answers 100 from the third on.
\<close>

definition halt_report :: Invoke_result where
  "halt_report = \<lparr>State = ''HALT'', GasConsumed = 1000, Script = [0x0C, 0x01],
                   Stack = [ItemBool True], FaultException = []\<rparr>"

definition fault_report :: Invoke_result where
  "fault_report = \<lparr>State = ''FAULT'', GasConsumed = 1000, Script = [0x0C, 0x01],
                    Stack = [], FaultException = ''not witnessed''\<rparr>"

definition node_ok :: WSClient where
  "node_ok = \<lparr>
     invokeFunction = (\<lambda>contract method params signers h. Inr halt_report),
     signAndPushInvocationTx = (\<lambda>script a sysFee netFee cosigners h. Inr (Uint256 [7])),
     getNativeContractHash = (\<lambda>name h. Inr (Uint160 [9])),
     transferNEP17 = (\<lambda>a to token amount gas h. Inr (Uint256 [8])),
     getBlockCount = (\<lambda>h. Inr 5),
     nep17BalanceOf = (\<lambda>token a h. Inr 42),
     getCommittee = (\<lambda>h. Inr [PublicKey [2]]),
     getApplicationLog = (\<lambda>tx trig h. Inr \<lparr>Executions = [1]\<rparr>),
     getTransactionHeight = (\<lambda>tx h. Inr 4),
     getDesignatedByRole = (\<lambda>r height h. Inr [PublicKey [3]]),
     getNetwork = (\<lambda>h. Inr 0x334F454E),
     getVersion = (\<lambda>h. Inr \<lparr>MillisecondsPerBlock = 15000\<rparr>),
     invokeScript = (\<lambda>script signers h. Inr halt_report)\<rparr>"

definition node_fault :: WSClient where
  "node_fault = node_ok\<lparr>
     invokeFunction := (\<lambda>contract method params signers h. Inr fault_report),
     invokeScript := (\<lambda>script signers h. Inr fault_report)\<rparr>"

definition timeout :: error where
  "timeout = EndpointError ''timeout''"

definition node_down :: WSClient where
  "node_down = \<lparr>
     invokeFunction = (\<lambda>contract method params signers h. Inl timeout),
     signAndPushInvocationTx = (\<lambda>script a sysFee netFee cosigners h. Inl timeout),
     getNativeContractHash = (\<lambda>name h. Inl timeout),
     transferNEP17 = (\<lambda>a to token amount gas h. Inl timeout),
     getBlockCount = (\<lambda>h. Inl timeout),
     nep17BalanceOf = (\<lambda>token a h. Inl timeout),
     getCommittee = (\<lambda>h. Inl timeout),
     getApplicationLog = (\<lambda>tx trig h. Inl timeout),
     getTransactionHeight = (\<lambda>tx h. Inl timeout),
     getDesignatedByRole = (\<lambda>r height h. Inl timeout),
     getNetwork = (\<lambda>h. Inl timeout),
     getVersion = (\<lambda>h. Inl timeout),
     invokeScript = (\<lambda>script signers h. Inl timeout)\<rparr>"

definition node_flaky :: WSClient where
  "node_flaky = node_ok\<lparr>
     getBlockCount := (\<lambda>h. if height_queries h = 0 then Inr 5
                           else if height_queries h = 1 then Inl timeout
                           else Inr 100)\<rparr>"

definition empty_cache :: cache where
  "empty_cache = \<lparr>nnsHash = None, gKey = None, txHeights = \<lparr>size_lru = 100, items = []\<rparr>\<rparr>"


definition new_client :: "WSClient \<Rightarrow> Client" where
  "new_client node = \<lparr>
     cache = empty_cache,
     client = node,
     acc = wallet_Account (Uint160 [1]),
     signer = \<lparr>Account = Uint160 [1], Scopes = 1, AllowedContracts = [], AllowedGroups = []\<rparr>,
     cfg = \<lparr>waitInterval = 500, inactiveModeCb = Some ()\<rparr>,
     notifications = ChanOpen,
     inactive = False\<rparr>"

definition lost_client :: Client where
  "lost_client = (new_client node_down)\<lparr>notifications := ChanClosed, inactive := True\<rparr>"

definition ctx_background :: Context where
  "ctx_background h = False"

definition ctx_cancelled :: Context where
  "ctx_cancelled h = True"

section \<open>Auxiliary facts\<close>

lemma rpcs_append: "rpcs (a @ b) = rpcs a @ rpcs b"
  by (induction a rule: rpcs.induct) simp_all

text \<open>
  The elements of a \<open>[][]byte\<close> are byte arrays by their type, so the inner loop of
  \<open>toStackParameter\<close> never fails. A \<open>keys.PublicKeys\<close> without a \<open>nil\<close> element is
  converted through \<open>[][]byte\<close>; with a \<open>nil\<close> element the conversion panics. An
  unsupported kind can therefore only be the dynamic type of an argument itself.
\<close>

lemma toStackParameter_elems_bytes:
  "toStackParameter_elems v arr =
     Returns (Inr (arr @ map (\<lambda>b. Parameter ByteArrayType (ValBytes b)) v))"
  by (induction v arbitrary: arr) simp_all

lemma publicKeys_bytes_keys:
  "None \<notin> set v \<Longrightarrow> publicKeys_bytes v arr = Returns (arr @ map (\<lambda>k. Bytes (the k)) v)"
  by (induction v arr rule: publicKeys_bytes.induct) simp_all

lemma publicKeys_bytes_nil:
  "None \<in> set v \<Longrightarrow> publicKeys_bytes v arr = Panics nil_dereference"
  by (induction v arr rule: publicKeys_bytes.induct) simp_all

lemma toStackParameter_nil_key:
  "has_nil_key a \<Longrightarrow> toStackParameter a = Panics nil_dereference"
  by (cases a) (simp_all add: publicKeys_bytes_nil)

lemma toStackParameter_supported:
  "\<not> is_unsupported a \<Longrightarrow> \<not> has_nil_key a \<Longrightarrow> \<exists>p. toStackParameter a = Returns (Inr p)"
  by (cases a) (simp_all add: toStackParameter_elems_bytes publicKeys_bytes_keys)

lemma toStackParameter_unsupported:
  "is_unsupported a \<Longrightarrow> toStackParameter a = Returns (Inl (NeofsError (UnsupportedParameter a)))"
  by (cases a) (simp_all add: wrapNeoFSError_def)

lemma toStackParameters_first_unsupported:
  "find is_unsupported args = Some a \<Longrightarrow>
   \<forall>x \<in> set (takeWhile (\<lambda>x. \<not> is_unsupported x) args). \<not> has_nil_key x \<Longrightarrow>
     toStackParameters args params = Returns (Inl (NeofsError (UnsupportedParameter a)))"
proof (induction args arbitrary: params)
  case Nil
  then show ?case by simp
next
  case (Cons x xs)
  show ?case
  proof (cases "is_unsupported x")
    case True
    with Cons.prems have "x = a" by simp
    with True show ?thesis by (simp add: toStackParameter_unsupported)
  next
    case False
    with Cons.prems have "\<not> has_nil_key x" by simp
    with False obtain p where "toStackParameter x = Returns (Inr p)"
      using toStackParameter_supported by blast
    moreover from False Cons.prems have "find is_unsupported xs = Some a" by simp
    moreover from False Cons.prems
    have "\<forall>y \<in> set (takeWhile (\<lambda>x. \<not> is_unsupported x) xs). \<not> has_nil_key y" by simp
    ultimately show ?thesis using Cons.IH by simp
  qed
qed

lemma find_unsupported_iff:
  "(\<exists>a \<in> set args. is_unsupported a) \<longleftrightarrow> (\<exists>b. find is_unsupported args = Some b)"
  by (cases "find is_unsupported args") (auto simp: find_None_iff find_Some_iff)

lemma sint_add_no_overflow:
  fixes a b :: int64
  assumes "- (2 ^ 63) \<le> sint a + sint b" and "sint a + sint b < 2 ^ 63"
  shows "sint (a + b) = sint a + sint b"
  using assms by (simp add: sint_word_ariths signed_take_bit_int_eq_self)

text \<open>The polling loop returns \<open>nil\<close> whenever it returns.\<close>

lemma Wait_loop_returns_nil_aux:
  assumes "Wait_loop c ctx height n h = Some y"
  shows "fst y = Inr ()"
proof (rule Wait_loop.raw_induct
    [where P = "\<lambda>c ctx height n h y. fst y = Inr ()", OF _ assms])
  fix loop :: "Client \<Rightarrow> Context \<Rightarrow> uint32 \<Rightarrow> uint32 \<Rightarrow> history \<Rightarrow> ((error + unit) \<times> history) option"
  fix c ctx height n h y
  assume IH: "\<And>c ctx height n h y. loop c ctx height n h = Some y \<Longrightarrow> fst y = Inr ()"
  assume step: "(if ctx h then Some (Inr (), h)
      else case request GetBlockCount (getBlockCount (client c)) h of
           (Inl err, h1) \<Rightarrow>
             Some (Inr (), h1 @ [LogError ''can't get blockchain height'' err])
           | (Inr newHeight, h1) \<Rightarrow>
               if height + n \<le> newHeight then Some (Inr (), h1)
               else loop c ctx height n (h1 @ [Sleep (waitInterval (cfg c))])) =
     Some y"
  show "fst y = Inr ()"
  proof (cases "ctx h")
    case True
    with step show ?thesis by auto
  next
    case False
    show ?thesis
    proof (cases "getBlockCount (client c) h")
      case (Inl err)
      with False step show ?thesis by (auto simp: request_def)
    next
      case (Inr newHeight)
      with False step IH show ?thesis
        by (auto simp: request_def split: if_splits)
    qed
  qed
qed

lemma Wait_loop_returns_nil:
  "Wait_loop c ctx height n h = Some (r, h') \<Longrightarrow> r = Inr ()"
  by (drule Wait_loop_returns_nil_aux) simp

lemma Wait_loop_query_error:
  "\<not> ctx h \<Longrightarrow> getBlockCount (client c) h = Inl err \<Longrightarrow>
     Wait_loop c ctx height n h =
       Some (Inr (), h @ [Rpc GetBlockCount, LogError ''can't get blockchain height'' err])"
  by (subst Wait_loop.simps) (simp add: request_def)

lemma Wait_loop_done:
  "ctx h \<Longrightarrow> Wait_loop c ctx height n h = Some (Inr (), h)"
  by (subst Wait_loop.simps) simp

lemma new_client_active: "\<not> inactive (new_client node)"
  by (simp add: new_client_def)

lemma new_client_node: "client (new_client node) = node"
  by (simp add: new_client_def)

section \<open>Fault state of a state-changing invocation\<close>

text \<open>
  C1. A state-changing \<open>Invoke\<close> whose execution report has a state other than "HALT"
  returns the error that carries the reported state and the fault text, wrapped as a
  NeoFS error; the history of the call holds the \<open>InvokeFunction\<close> request between the
  two lock events and nothing else, so \<open>SignAndPushInvocationTx\<close> is not reached and no
  transaction is pushed. A report exists only on a client that is active, whose
  arguments converted, and whose \<open>InvokeFunction\<close> request was answered.
\<close>

theorem Invoke_fault_state_no_push:
  assumes "\<not> inactive c"
    and "toStackParameters args [] = Returns (Inr params)"
    and "invokeFunction (client c) contract method params (cosigner c) (h @ [RLock SwitchLock]) = Inr resp"
    and "State resp \<noteq> HaltState"
  shows "Invoke c contract fee method args h =
      (Returns (Inl (NeofsError (NotHaltStateError (State resp) (FaultException resp)))),
       h @ [RLock SwitchLock, Rpc (InvokeFunction contract method params (cosigner c)),
            RUnlock SwitchLock])
    \<and> filter is_push (rpcs (snd (Invoke c contract fee method args h))) = filter is_push (rpcs h)"
  using assms
  by (simp add: Invoke_def withRLock_def request_def wrapNeoFSError_def rpcs_append)

text \<open>On the endpoint that reports FAULT with the exception "not witnessed".\<close>

theorem Invoke_fault_state_no_push_witness:
  "State fault_report \<noteq> HaltState
   \<and> Invoke (new_client node_fault) (Uint160 [5]) 10 ''put'' [ArgInt64 3, ArgString ''x''] [] =
      (Returns (Inl (NeofsError (NotHaltStateError ''FAULT'' ''not witnessed''))),
       [RLock SwitchLock,
        Rpc (InvokeFunction (Uint160 [5]) ''put''
               [Parameter IntegerType (ValBigInt 3), Parameter StringType (ValString ''x'')]
               (cosigner (new_client node_fault))),
        RUnlock SwitchLock])
   \<and> filter is_push (rpcs (snd (Invoke (new_client node_fault) (Uint160 [5]) 10 ''put''
                                  [ArgInt64 3, ArgString ''x''] []))) = []"
proof -
  have a: "\<not> inactive (new_client node_fault)"
    by (rule new_client_active)
  have b: "toStackParameters [ArgInt64 3, ArgString ''x''] [] =
      Returns (Inr [Parameter IntegerType (ValBigInt 3), Parameter StringType (ValString ''x'')])"
    by simp
  have c: "invokeFunction (client (new_client node_fault)) (Uint160 [5]) ''put''
      [Parameter IntegerType (ValBigInt 3), Parameter StringType (ValString ''x'')]
      (cosigner (new_client node_fault)) ([] @ [RLock SwitchLock]) = Inr fault_report"
    by (simp add: new_client_node node_fault_def)
  have d: "State fault_report \<noteq> HaltState"
    by (simp add: fault_report_def HaltState_def)
  show ?thesis
    using Invoke_fault_state_no_push [OF a b c d, of 10] d
    by (simp add: fault_report_def)
qed

section \<open>Inactive client\<close>

text \<open>
  C2. Once the \<open>inactive\<close> flag of the client is set, each of \<open>Invoke\<close>, \<open>TestInvoke\<close>,
  \<open>TransferGas\<close>, \<open>Wait\<close>, \<open>GasBalance\<close>, \<open>Committee\<close>, \<open>TxHalt\<close>, \<open>TxHeight\<close>,
  \<open>BlockCount\<close>, \<open>MsPerBlock\<close>, \<open>IsValidScript\<close>, \<open>NeoFSAlphabetList\<close>,
  \<open>GetDesignateHash\<close> and \<open>MagicNumber\<close> takes the switch lock for reading, finds the
  flag, returns \<open>ErrConnectionLost\<close> and releases the lock: the history of the call is
  the two lock events, with no request to the endpoint between them.
\<close>

theorem inactive_client_connection_lost:
  assumes "inactive c"
  shows "Invoke c contract fee meth args h =
        (Returns (Inl ErrConnectionLost), h @ [RLock SwitchLock, RUnlock SwitchLock])
   \<and> TestInvoke c contract meth args h =
        (Returns (Inl ErrConnectionLost), h @ [RLock SwitchLock, RUnlock SwitchLock])
   \<and> TransferGas c receiver amount h =
        (Inl ErrConnectionLost, h @ [RLock SwitchLock, RUnlock SwitchLock])
   \<and> Wait c ctx n h =
        Some (Inl ErrConnectionLost, h @ [RLock SwitchLock, RUnlock SwitchLock])
   \<and> GasBalance c h = (Inl ErrConnectionLost, h @ [RLock SwitchLock, RUnlock SwitchLock])
   \<and> Committee c h = (Inl ErrConnectionLost, h @ [RLock SwitchLock, RUnlock SwitchLock])
   \<and> TxHalt c tx h = (Inl ErrConnectionLost, h @ [RLock SwitchLock, RUnlock SwitchLock])
   \<and> TxHeight c tx h = (Inl ErrConnectionLost, h @ [RLock SwitchLock, RUnlock SwitchLock])
   \<and> BlockCount c h = (Inl ErrConnectionLost, h @ [RLock SwitchLock, RUnlock SwitchLock])
   \<and> MsPerBlock c h = (Inl ErrConnectionLost, h @ [RLock SwitchLock, RUnlock SwitchLock])
   \<and> IsValidScript c script signers h =
        (Inl ErrConnectionLost, h @ [RLock SwitchLock, RUnlock SwitchLock])
   \<and> NeoFSAlphabetList c h =
        (Inl ErrConnectionLost, h @ [RLock SwitchLock, RUnlock SwitchLock])
   \<and> GetDesignateHash c h =
        (Inl ErrConnectionLost, h @ [RLock SwitchLock, RUnlock SwitchLock])
   \<and> MagicNumber c h =
        (Returns (Inl ErrConnectionLost), h @ [RLock SwitchLock, RUnlock SwitchLock])"
proof (intro conjI)
  show "Invoke c contract fee meth args h =
        (Returns (Inl ErrConnectionLost), h @ [RLock SwitchLock, RUnlock SwitchLock])"
    using assms by (simp add: Invoke_def withRLock_def)
  show "TestInvoke c contract meth args h =
        (Returns (Inl ErrConnectionLost), h @ [RLock SwitchLock, RUnlock SwitchLock])"
    using assms by (simp add: TestInvoke_def withRLock_def)
  show "TransferGas c receiver amount h =
        (Inl ErrConnectionLost, h @ [RLock SwitchLock, RUnlock SwitchLock])"
    using assms by (simp add: TransferGas_def withRLock_def)
  show "Wait c ctx n h =
        Some (Inl ErrConnectionLost, h @ [RLock SwitchLock, RUnlock SwitchLock])"
    using assms by (simp add: Wait_def Wait_body_def)
  show "GasBalance c h = (Inl ErrConnectionLost, h @ [RLock SwitchLock, RUnlock SwitchLock])"
    using assms by (simp add: GasBalance_def withRLock_def)
  show "Committee c h = (Inl ErrConnectionLost, h @ [RLock SwitchLock, RUnlock SwitchLock])"
    using assms by (simp add: Committee_def withRLock_def)
  show "TxHalt c tx h = (Inl ErrConnectionLost, h @ [RLock SwitchLock, RUnlock SwitchLock])"
    using assms by (simp add: TxHalt_def withRLock_def)
  show "TxHeight c tx h = (Inl ErrConnectionLost, h @ [RLock SwitchLock, RUnlock SwitchLock])"
    using assms by (simp add: TxHeight_def withRLock_def)
  show "BlockCount c h = (Inl ErrConnectionLost, h @ [RLock SwitchLock, RUnlock SwitchLock])"
    using assms by (simp add: BlockCount_def withRLock_def)
  show "MsPerBlock c h = (Inl ErrConnectionLost, h @ [RLock SwitchLock, RUnlock SwitchLock])"
    using assms by (simp add: MsPerBlock_def withRLock_def)
  show "IsValidScript c script signers h =
        (Inl ErrConnectionLost, h @ [RLock SwitchLock, RUnlock SwitchLock])"
    using assms by (simp add: IsValidScript_def withRLock_def)
  show "NeoFSAlphabetList c h =
        (Inl ErrConnectionLost, h @ [RLock SwitchLock, RUnlock SwitchLock])"
    using assms by (simp add: NeoFSAlphabetList_def withRLock_def)
  show "GetDesignateHash c h =
        (Inl ErrConnectionLost, h @ [RLock SwitchLock, RUnlock SwitchLock])"
    using assms by (simp add: GetDesignateHash_def withRLock_def)
  show "MagicNumber c h =
        (Returns (Inl ErrConnectionLost), h @ [RLock SwitchLock, RUnlock SwitchLock])"
    using assms by (simp add: MagicNumber_def withRLock_def)
qed

text \<open>On the client that lost its connection, with arguments for every method.\<close>

theorem inactive_client_connection_lost_witness:
  "inactive lost_client
   \<and> Invoke lost_client (Uint160 [5]) 10 ''put'' [ArgInt64 3] [] =
        (Returns (Inl ErrConnectionLost), [RLock SwitchLock, RUnlock SwitchLock])
   \<and> TestInvoke lost_client (Uint160 [5]) ''get'' [ArgOther ''chan''] [] =
        (Returns (Inl ErrConnectionLost), [RLock SwitchLock, RUnlock SwitchLock])
   \<and> TransferGas lost_client (Uint160 [6]) 100 [] =
        (Inl ErrConnectionLost, [RLock SwitchLock, RUnlock SwitchLock])
   \<and> Wait lost_client ctx_background 2 [] =
        Some (Inl ErrConnectionLost, [RLock SwitchLock, RUnlock SwitchLock])
   \<and> GasBalance lost_client [] = (Inl ErrConnectionLost, [RLock SwitchLock, RUnlock SwitchLock])
   \<and> Committee lost_client [] = (Inl ErrConnectionLost, [RLock SwitchLock, RUnlock SwitchLock])
   \<and> TxHalt lost_client (Uint256 [7]) [] =
        (Inl ErrConnectionLost, [RLock SwitchLock, RUnlock SwitchLock])
   \<and> TxHeight lost_client (Uint256 [7]) [] =
        (Inl ErrConnectionLost, [RLock SwitchLock, RUnlock SwitchLock])
   \<and> BlockCount lost_client [] = (Inl ErrConnectionLost, [RLock SwitchLock, RUnlock SwitchLock])
   \<and> MsPerBlock lost_client [] = (Inl ErrConnectionLost, [RLock SwitchLock, RUnlock SwitchLock])
   \<and> IsValidScript lost_client [0x0C] [] [] =
        (Inl ErrConnectionLost, [RLock SwitchLock, RUnlock SwitchLock])
   \<and> NeoFSAlphabetList lost_client [] =
        (Inl ErrConnectionLost, [RLock SwitchLock, RUnlock SwitchLock])
   \<and> GetDesignateHash lost_client [] =
        (Inl ErrConnectionLost, [RLock SwitchLock, RUnlock SwitchLock])
   \<and> MagicNumber lost_client [] =
        (Returns (Inl ErrConnectionLost), [RLock SwitchLock, RUnlock SwitchLock])"
proof -
  have a: "inactive lost_client"
    by (simp add: lost_client_def)
  show ?thesis
    using a inactive_client_connection_lost [OF a,
        where h = "[]" and contract = "Uint160 [5]" and fee = 10 and meth = "''put''"
          and args = "[ArgInt64 3]"]
      inactive_client_connection_lost [OF a,
        where h = "[]" and contract = "Uint160 [5]" and meth = "''get''"
          and args = "[ArgOther ''chan'']" and receiver = "Uint160 [6]" and amount = 100
          and ctx = ctx_background and n = 2 and tx = "Uint256 [7]"
          and script = "[0x0C]" and signers = "[]"]
    by simp
qed

section \<open>Waiting for blocks: failed height queries\<close>

text \<open>
  The claim C3 as it is written says that \<open>Wait\<close> suppresses a failed per-tick height
  query and asks again on the next tick, that it returns hard query errors, and that
  only the initial query ends the wait on failure. On the flaky endpoint the first
  query is answered with 5 and the second one, the first of the loop, fails; the third
  one would be answered with 100, enough for \<open>n = 10\<close>. \<open>Wait\<close> logs the failure and
  returns \<open>nil\<close> after these two queries: there is no sleep and no third query, and the
  error is not returned.
\<close>

theorem Wait_tick_error_not_retried:
  "getBlockCount (client (new_client node_flaky)) [RLock SwitchLock, Rpc GetBlockCount] = Inl timeout
   \<and> getBlockCount (client (new_client node_flaky))
        [RLock SwitchLock, Rpc GetBlockCount, Rpc GetBlockCount] = Inr 100
   \<and> Wait (new_client node_flaky) ctx_background 10 [] =
       Some (Inr (), [RLock SwitchLock, Rpc GetBlockCount, Rpc GetBlockCount,
                      LogError ''can't get blockchain height'' timeout, RUnlock SwitchLock])"
  by (simp add: Wait_def Wait_body_def Wait_loop.simps request_def new_client_def node_flaky_def
        node_ok_def height_queries_def ctx_background_def)

text \<open>
  C3, as the code has it. On an active client a failed height query ends the wait at
  once with a \<open>nil\<close> error, whether it is the initial query or a query of the loop at
  any tick: the failure is logged, no further query is sent, and the error is not
  returned. \<open>Wait\<close> never returns a query error: whenever it returns on an active
  client, it returns \<open>nil\<close>.
\<close>

theorem Wait_failed_query_stops_waiting:
  assumes "\<not> inactive c"
  shows "(getBlockCount (client c) (h @ [RLock SwitchLock]) = Inl err \<longrightarrow>
            Wait c ctx n h =
              Some (Inr (), h @ [RLock SwitchLock, Rpc GetBlockCount,
                                 LogError ''can't get blockchain height'' err,
                                 RUnlock SwitchLock]))
       \<and> (\<not> ctx hl \<and> getBlockCount (client c) hl = Inl err \<longrightarrow>
            Wait_loop c ctx height n hl =
              Some (Inr (), hl @ [Rpc GetBlockCount, LogError ''can't get blockchain height'' err]))
       \<and> (getBlockCount (client c) (h @ [RLock SwitchLock]) = Inr height
            \<and> \<not> ctx (h @ [RLock SwitchLock, Rpc GetBlockCount])
            \<and> getBlockCount (client c) (h @ [RLock SwitchLock, Rpc GetBlockCount]) = Inl err \<longrightarrow>
            Wait c ctx n h =
              Some (Inr (), h @ [RLock SwitchLock, Rpc GetBlockCount, Rpc GetBlockCount,
                                 LogError ''can't get blockchain height'' err,
                                 RUnlock SwitchLock]))
       \<and> (\<forall>r h'. Wait c ctx n h = Some (r, h') \<longrightarrow> r = Inr ())"
proof (intro conjI impI allI)
  assume "getBlockCount (client c) (h @ [RLock SwitchLock]) = Inl err"
  with assms show "Wait c ctx n h =
      Some (Inr (), h @ [RLock SwitchLock, Rpc GetBlockCount,
                         LogError ''can't get blockchain height'' err, RUnlock SwitchLock])"
    by (simp add: Wait_def Wait_body_def request_def)
next
  assume "\<not> ctx hl \<and> getBlockCount (client c) hl = Inl err"
  then show "Wait_loop c ctx height n hl =
      Some (Inr (), hl @ [Rpc GetBlockCount, LogError ''can't get blockchain height'' err])"
    by (simp add: Wait_loop_query_error)
next
  assume a: "getBlockCount (client c) (h @ [RLock SwitchLock]) = Inr height
            \<and> \<not> ctx (h @ [RLock SwitchLock, Rpc GetBlockCount])
            \<and> getBlockCount (client c) (h @ [RLock SwitchLock, Rpc GetBlockCount]) = Inl err"
  then have "Wait_loop c ctx height n (h @ [RLock SwitchLock, Rpc GetBlockCount]) =
      Some (Inr (), (h @ [RLock SwitchLock, Rpc GetBlockCount])
                      @ [Rpc GetBlockCount, LogError ''can't get blockchain height'' err])"
    by (intro Wait_loop_query_error) simp_all
  with a assms show "Wait c ctx n h =
      Some (Inr (), h @ [RLock SwitchLock, Rpc GetBlockCount, Rpc GetBlockCount,
                         LogError ''can't get blockchain height'' err, RUnlock SwitchLock])"
    by (simp add: Wait_def Wait_body_def request_def)
next
  fix r h'
  assume "Wait c ctx n h = Some (r, h')"
  with assms show "r = Inr ()"
    by (auto simp: Wait_def Wait_body_def request_def
             split: option.splits sum.splits dest: Wait_loop_returns_nil)
qed

text \<open>
  On the endpoint that is down (the initial query fails) and on the flaky endpoint
  (the query of the first tick fails).
\<close>

theorem Wait_failed_query_stops_waiting_witness:
  "Wait (new_client node_down) ctx_background 7 [] =
       Some (Inr (), [RLock SwitchLock, Rpc GetBlockCount,
                      LogError ''can't get blockchain height'' timeout, RUnlock SwitchLock])
   \<and> Wait_loop (new_client node_flaky) ctx_background 5 7 [RLock SwitchLock, Rpc GetBlockCount] =
       Some (Inr (), [RLock SwitchLock, Rpc GetBlockCount, Rpc GetBlockCount,
                      LogError ''can't get blockchain height'' timeout])
   \<and> Wait (new_client node_flaky) ctx_background 7 [] =
       Some (Inr (), [RLock SwitchLock, Rpc GetBlockCount, Rpc GetBlockCount,
                      LogError ''can't get blockchain height'' timeout, RUnlock SwitchLock])"
proof -
  have down: "getBlockCount (client (new_client node_down)) ([] @ [RLock SwitchLock]) = Inl timeout"
    by (simp add: new_client_node node_down_def)
  have first: "getBlockCount (client (new_client node_flaky)) ([] @ [RLock SwitchLock]) = Inr 5"
    by (simp add: new_client_node node_flaky_def height_queries_def)
  have second: "getBlockCount (client (new_client node_flaky))
      ([] @ [RLock SwitchLock, Rpc GetBlockCount]) = Inl timeout"
    by (simp add: new_client_node node_flaky_def height_queries_def)
  have second': "getBlockCount (client (new_client node_flaky))
      [RLock SwitchLock, Rpc GetBlockCount] = Inl timeout"
    using second by simp
  have bg: "\<not> ctx_background hh" for hh
    by (simp add: ctx_background_def)
  note D = Wait_failed_query_stops_waiting [OF new_client_active [of node_down],
        where h = "[]" and err = timeout and ctx = ctx_background and n = 7]
  note F = Wait_failed_query_stops_waiting [OF new_client_active [of node_flaky],
        where h = "[]" and err = timeout and ctx = ctx_background
          and n = 7 and height = 5 and hl = "[RLock SwitchLock, Rpc GetBlockCount]"]
  have 1: "Wait (new_client node_down) ctx_background 7 [] =
       Some (Inr (), [RLock SwitchLock, Rpc GetBlockCount,
                      LogError ''can't get blockchain height'' timeout, RUnlock SwitchLock])"
    using D [THEN conjunct1, rule_format, OF down] by simp
  have 2: "Wait_loop (new_client node_flaky) ctx_background 5 7 [RLock SwitchLock, Rpc GetBlockCount] =
       Some (Inr (), [RLock SwitchLock, Rpc GetBlockCount, Rpc GetBlockCount,
                      LogError ''can't get blockchain height'' timeout])"
    using F [THEN conjunct2, THEN conjunct1, rule_format, OF conjI [OF bg second']] by simp
  have 3: "Wait (new_client node_flaky) ctx_background 7 [] =
       Some (Inr (), [RLock SwitchLock, Rpc GetBlockCount, Rpc GetBlockCount,
                      LogError ''can't get blockchain height'' timeout, RUnlock SwitchLock])"
    using F [THEN conjunct2, THEN conjunct2, THEN conjunct1, rule_format,
        OF conjI [OF first conjI [OF bg second]]] by simp
  from 1 2 3 show ?thesis by simp
qed

section \<open>Requests of the auxiliary read methods\<close>

text \<open>
  The claim C4 as it is written gives every auxiliary read method exactly one request
  between taking and releasing the switch lock. On the endpoint that answers every
  request, \<open>GasBalance\<close> sends two (the hash of the native GAS contract, then the
  balance) and \<open>NeoFSAlphabetList\<close> sends two (the height, then the members of the role
  at that height).
\<close>

theorem GasBalance_AlphabetList_two_requests:
  "GasBalance (new_client node_ok) [] =
     (Inr 42, [RLock SwitchLock, Rpc (GetNativeContractHash ''GasToken''),
               Rpc (NEP17BalanceOf (Uint160 [9]) (Uint160 [1])), RUnlock SwitchLock])
   \<and> NeoFSAlphabetList (new_client node_ok) [] =
     (Inr [PublicKey [3]], [RLock SwitchLock, Rpc GetBlockCount,
                            Rpc (GetDesignatedByRole 16 5), RUnlock SwitchLock])"
  by (simp add: GasBalance_def NeoFSAlphabetList_def roleList_def withRLock_def request_def
      new_client_def node_ok_def nativenames_Gas_def noderoles_NeoFSAlphabet_def)

text \<open>
  C4, as the code has it. On an active client \<open>BlockCount\<close>, \<open>GetDesignateHash\<close>,
  \<open>Committee\<close>, \<open>MsPerBlock\<close>, \<open>TxHeight\<close>, \<open>TxHalt\<close> and \<open>IsValidScript\<close> send exactly
  one request between taking and releasing the switch lock. \<open>GasBalance\<close> asks for the
  hash of the native GAS contract and, when that is answered, for the balance;
  \<open>NeoFSAlphabetList\<close> asks for the height and, when that is answered, for the members
  of the role: one request when the first one fails, two otherwise.
\<close>

theorem read_methods_requests:
  assumes "\<not> inactive c"
  shows "snd (BlockCount c h) = h @ [RLock SwitchLock, Rpc GetBlockCount, RUnlock SwitchLock]
    \<and> snd (GetDesignateHash c h) =
        h @ [RLock SwitchLock, Rpc (GetNativeContractHash nativenames_Designation), RUnlock SwitchLock]
    \<and> snd (Committee c h) = h @ [RLock SwitchLock, Rpc GetCommittee, RUnlock SwitchLock]
    \<and> snd (MsPerBlock c h) = h @ [RLock SwitchLock, Rpc GetVersion, RUnlock SwitchLock]
    \<and> snd (TxHeight c tx h) = h @ [RLock SwitchLock, Rpc (GetTransactionHeight tx), RUnlock SwitchLock]
    \<and> snd (TxHalt c tx h) =
        h @ [RLock SwitchLock, Rpc (GetApplicationLog tx trigger_Application), RUnlock SwitchLock]
    \<and> snd (IsValidScript c script signers h) =
        h @ [RLock SwitchLock, Rpc (InvokeScript script signers), RUnlock SwitchLock]
    \<and> snd (GasBalance c h) =
        h @ [RLock SwitchLock, Rpc (GetNativeContractHash nativenames_Gas)]
          @ (case getNativeContractHash (client c) nativenames_Gas (h @ [RLock SwitchLock]) of
               Inl err \<Rightarrow> []
             | Inr gas \<Rightarrow> [Rpc (NEP17BalanceOf gas (GetScriptHash (acc c)))])
          @ [RUnlock SwitchLock]
    \<and> snd (NeoFSAlphabetList c h) =
        h @ [RLock SwitchLock, Rpc GetBlockCount]
          @ (case getBlockCount (client c) (h @ [RLock SwitchLock]) of
               Inl err \<Rightarrow> []
             | Inr height \<Rightarrow> [Rpc (GetDesignatedByRole noderoles_NeoFSAlphabet height)])
          @ [RUnlock SwitchLock]"
proof (intro conjI)
  show "snd (BlockCount c h) = h @ [RLock SwitchLock, Rpc GetBlockCount, RUnlock SwitchLock]"
    using assms by (simp add: BlockCount_def withRLock_def request_def)
  show "snd (GetDesignateHash c h) =
        h @ [RLock SwitchLock, Rpc (GetNativeContractHash nativenames_Designation), RUnlock SwitchLock]"
    using assms by (simp add: GetDesignateHash_def withRLock_def request_def)
  show "snd (Committee c h) = h @ [RLock SwitchLock, Rpc GetCommittee, RUnlock SwitchLock]"
    using assms by (simp add: Committee_def withRLock_def request_def)
  show "snd (MsPerBlock c h) = h @ [RLock SwitchLock, Rpc GetVersion, RUnlock SwitchLock]"
    using assms by (simp add: MsPerBlock_def withRLock_def request_def split: sum.splits)
  show "snd (TxHeight c tx h) = h @ [RLock SwitchLock, Rpc (GetTransactionHeight tx), RUnlock SwitchLock]"
    using assms by (simp add: TxHeight_def withRLock_def request_def)
  show "snd (TxHalt c tx h) =
        h @ [RLock SwitchLock, Rpc (GetApplicationLog tx trigger_Application), RUnlock SwitchLock]"
    using assms by (simp add: TxHalt_def withRLock_def request_def split: sum.splits)
  show "snd (IsValidScript c script signers h) =
        h @ [RLock SwitchLock, Rpc (InvokeScript script signers), RUnlock SwitchLock]"
    using assms by (simp add: IsValidScript_def withRLock_def request_def split: sum.splits)
  show "snd (GasBalance c h) =
        h @ [RLock SwitchLock, Rpc (GetNativeContractHash nativenames_Gas)]
          @ (case getNativeContractHash (client c) nativenames_Gas (h @ [RLock SwitchLock]) of
               Inl err \<Rightarrow> []
             | Inr gas \<Rightarrow> [Rpc (NEP17BalanceOf gas (GetScriptHash (acc c)))])
          @ [RUnlock SwitchLock]"
    using assms by (simp add: GasBalance_def withRLock_def request_def split: sum.splits)
  show "snd (NeoFSAlphabetList c h) =
        h @ [RLock SwitchLock, Rpc GetBlockCount]
          @ (case getBlockCount (client c) (h @ [RLock SwitchLock]) of
               Inl err \<Rightarrow> []
             | Inr height \<Rightarrow> [Rpc (GetDesignatedByRole noderoles_NeoFSAlphabet height)])
          @ [RUnlock SwitchLock]"
    using assms
    by (simp add: NeoFSAlphabetList_def roleList_def withRLock_def request_def split: sum.splits)
qed

text \<open>On the endpoint that is down: every method, the two-step ones too, sends one request.\<close>

theorem read_methods_requests_witness:
  "snd (BlockCount (new_client node_down) []) =
        [RLock SwitchLock, Rpc GetBlockCount, RUnlock SwitchLock]
   \<and> snd (GetDesignateHash (new_client node_down) []) =
        [RLock SwitchLock, Rpc (GetNativeContractHash nativenames_Designation), RUnlock SwitchLock]
   \<and> snd (Committee (new_client node_down) []) =
        [RLock SwitchLock, Rpc GetCommittee, RUnlock SwitchLock]
   \<and> snd (MsPerBlock (new_client node_down) []) =
        [RLock SwitchLock, Rpc GetVersion, RUnlock SwitchLock]
   \<and> snd (TxHeight (new_client node_down) (Uint256 [7]) []) =
        [RLock SwitchLock, Rpc (GetTransactionHeight (Uint256 [7])), RUnlock SwitchLock]
   \<and> snd (TxHalt (new_client node_down) (Uint256 [7]) []) =
        [RLock SwitchLock, Rpc (GetApplicationLog (Uint256 [7]) trigger_Application),
         RUnlock SwitchLock]
   \<and> snd (IsValidScript (new_client node_down) [0x0C] [] []) =
        [RLock SwitchLock, Rpc (InvokeScript [0x0C] []), RUnlock SwitchLock]
   \<and> snd (GasBalance (new_client node_down) []) =
        [RLock SwitchLock, Rpc (GetNativeContractHash nativenames_Gas), RUnlock SwitchLock]
   \<and> snd (NeoFSAlphabetList (new_client node_down) []) =
        [RLock SwitchLock, Rpc GetBlockCount, RUnlock SwitchLock]"
  using read_methods_requests [OF new_client_active [of node_down],
      where h = "[]" and tx = "Uint256 [7]" and script = "[0x0C]" and signers = "[]"]
  by (simp add: new_client_node node_down_def)

section \<open>Invalidation of the fact cache\<close>

text \<open>
  Run alone, \<open>invalidate\<close> takes the exclusive lock once and clears the name-service
  hash and the group key and purges the transaction heights before it releases the
  lock (the capacity of the LRU cache is kept); an accessor that is called after it
  has returned gives the absent value.
\<close>

lemma invalidate_alone:
  "alone invalidate (memory_of c) =
     Some (\<lparr>shared = \<lparr>nnsHash = None, gKey = None, txHeights = Purge (txHeights c)\<rparr>,
             m = \<lparr>writer = False, readers = 0\<rparr>,
             events = [Lock CacheM, Unlock CacheM]\<rparr>,
           [\<lparr>todo = [], receiver_copy = None, returned = None\<rparr>])"
  by (simp add: alone_def invalidate_def memory_of_def call_def step_def eval_nat_numeral)

lemma accessors_called_after_invalidate:
  "map_option (\<lambda>s. map returned (snd s))
     (run (memory_of c, [call invalidate, call nns, call groupKey])
        [0, 0, 0, 0, 0, 1, 1, 1, 1, 2, 2, 2, 2]) =
     Some [None, Some (Fact_nnsHash None), Some (Fact_gKey None)]"
  by (simp add: step_def call_def nns_def groupKey_def invalidate_def memory_of_def)

text \<open>
  While the writer is between \<open>Lock\<close> and \<open>Unlock\<close> no reader can take the read lock:
  a schedule that lets the reader lock there is not a run.
\<close>

lemma reader_waits_for_invalidate:
  "run (memory_of c, [call nns, call invalidate]) [0, 1, 1, 0] = None"
  by (simp add: step_def call_def nns_def invalidate_def memory_of_def)



section \<open>Arguments of an unsupported kind\<close>

text \<open>
  The claim C6 as it is written promises an invocation error for every call with an
  argument of an unsupported kind. On a client in inactive mode the flag is tested
  before the arguments are looked at: the call returns \<open>ErrConnectionLost\<close> and the
  unsupported argument is not reported. On an active client the arguments are
  converted in order, and a public-key list with a \<open>nil\<close> key standing before the
  unsupported argument ends the call with a panic instead of a returned error.
\<close>

theorem unsupported_argument_not_reported:
  "Invoke lost_client (Uint160 [5]) 10 ''put'' [ArgOther ''chan''] [] =
     (Returns (Inl ErrConnectionLost), [RLock SwitchLock, RUnlock SwitchLock])
   \<and> TestInvoke lost_client (Uint160 [5]) ''get'' [ArgOther ''chan''] [] =
     (Returns (Inl ErrConnectionLost), [RLock SwitchLock, RUnlock SwitchLock])
   \<and> Invoke (new_client node_ok) (Uint160 [5]) 10 ''put''
        [ArgPublicKeys [None], ArgOther ''chan''] [] =
     (Panics nil_dereference, [RLock SwitchLock, RUnlock SwitchLock])
   \<and> TestInvoke (new_client node_ok) (Uint160 [5]) ''get''
        [ArgPublicKeys [None], ArgOther ''chan''] [] =
     (Panics nil_dereference, [RLock SwitchLock, RUnlock SwitchLock])"
  by (simp add: Invoke_def TestInvoke_def withRLock_def lost_client_def new_client_def)

text \<open>
  C6, as the code has it. Let \<open>a\<close> be the first argument of \<open>Invoke\<close> or \<open>TestInvoke\<close>
  whose kind is outside the supported set, and let no public-key list before it hold a
  \<open>nil\<close> key, so that the arguments before it convert. Then the call returns before any
  request to the endpoint: the history of the call is the two lock events. On an
  active client the error is the NeoFS error for the unsupported parameter \<open>a\<close>; on an
  inactive client it is \<open>ErrConnectionLost\<close>. The elements of a nested array are
  supported by their type (\<open>toStackParameter_elems_bytes\<close>).
\<close>

theorem unsupported_argument_rejected:
  assumes "find is_unsupported args = Some a"
    and "\<forall>x \<in> set (takeWhile (\<lambda>x. \<not> is_unsupported x) args). \<not> has_nil_key x"
  shows "Invoke c contract fee meth args h =
      (Returns (Inl (if inactive c then ErrConnectionLost
                     else NeofsError (UnsupportedParameter a))),
       h @ [RLock SwitchLock, RUnlock SwitchLock])
    \<and> TestInvoke c contract meth args h =
      (Returns (Inl (if inactive c then ErrConnectionLost
                     else NeofsError (UnsupportedParameter a))),
       h @ [RLock SwitchLock, RUnlock SwitchLock])
    \<and> rpcs (snd (Invoke c contract fee meth args h)) = rpcs h
    \<and> rpcs (snd (TestInvoke c contract meth args h)) = rpcs h"
  using toStackParameters_first_unsupported [OF assms, of "[]"]
  by (simp add: Invoke_def TestInvoke_def withRLock_def rpcs_append)

text \<open>
  With an unsupported value after an integer and a list of one key, on an active
  client; what stands after the unsupported value is not looked at.
\<close>

theorem unsupported_argument_rejected_witness:
  "find is_unsupported
     [ArgInt64 3, ArgPublicKeys [Some (PublicKey [2])], ArgOther ''chan'', ArgPublicKeys [None]] =
     Some (ArgOther ''chan'')
   \<and> Invoke (new_client node_ok) (Uint160 [5]) 10 ''put''
        [ArgInt64 3, ArgPublicKeys [Some (PublicKey [2])], ArgOther ''chan'', ArgPublicKeys [None]] [] =
      (Returns (Inl (NeofsError (UnsupportedParameter (ArgOther ''chan'')))),
       [RLock SwitchLock, RUnlock SwitchLock])
   \<and> TestInvoke (new_client node_ok) (Uint160 [5]) ''put''
        [ArgInt64 3, ArgPublicKeys [Some (PublicKey [2])], ArgOther ''chan'', ArgPublicKeys [None]] [] =
      (Returns (Inl (NeofsError (UnsupportedParameter (ArgOther ''chan'')))),
       [RLock SwitchLock, RUnlock SwitchLock])"
proof -
  have a: "find is_unsupported
     [ArgInt64 3, ArgPublicKeys [Some (PublicKey [2])], ArgOther ''chan'', ArgPublicKeys [None]] =
      Some (ArgOther ''chan'')"
    by simp
  have b: "\<forall>x \<in> set (takeWhile (\<lambda>x. \<not> is_unsupported x)
      [ArgInt64 3, ArgPublicKeys [Some (PublicKey [2])], ArgOther ''chan'', ArgPublicKeys [None]]).
      \<not> has_nil_key x"
    by simp
  show ?thesis
    using a unsupported_argument_rejected [OF a b,
        where c = "new_client node_ok" and h = "[]" and contract = "Uint160 [5]"
          and fee = 10 and meth = "''put''"]
      new_client_active [of node_ok]
    by simp
qed

section \<open>System fee of a pushed transaction\<close>

text \<open>
  C7. When the report of a state-changing \<open>Invoke\<close> has the state "HALT" and a
  non-empty script, the script is pushed with the system fee \<open>GasConsumed + fee\<close>, the
  sum of the consumed gas of the report and the extra fee of the caller (Go's \<open>int64\<close>
  addition; it is the sum of the two integers whenever that sum is an \<open>int64\<close>) and
  with network fee 0. After the push the call only logs the transaction and releases
  the lock: it sends no further request and does not wait for a block. It returns
  \<open>nil\<close> when the push is accepted and the error of the push otherwise.
\<close>

theorem Invoke_halt_pushes_with_sysFee:
  assumes "\<not> inactive c"
    and "toStackParameters args [] = Returns (Inr params)"
    and "invokeFunction (client c) contract method params (cosigner c) (h @ [RLock SwitchLock]) = Inr resp"
    and "State resp = HaltState"
    and "Script resp \<noteq> []"
  shows "Invoke c contract fee method args h =
      (case signAndPushInvocationTx (client c) (Script resp) (acc c) (GasConsumed resp + fee) 0
              (cosignerAcc c)
              (h @ [RLock SwitchLock, Rpc (InvokeFunction contract method params (cosigner c))]) of
         Inl err \<Rightarrow>
           (Returns (Inl err),
            h @ [RLock SwitchLock,
                 Rpc (InvokeFunction contract method params (cosigner c)),
                 Rpc (SignAndPushInvocationTx (Script resp) (acc c) (GasConsumed resp + fee) 0
                        (cosignerAcc c)),
                 RUnlock SwitchLock])
       | Inr txHash \<Rightarrow>
           (Returns (Inr ()),
            h @ [RLock SwitchLock,
                 Rpc (InvokeFunction contract method params (cosigner c)),
                 Rpc (SignAndPushInvocationTx (Script resp) (acc c) (GasConsumed resp + fee) 0
                        (cosignerAcc c)),
                 LogDebug ''neo client invoke'',
                 RUnlock SwitchLock]))
    \<and> (- (2 ^ 63) \<le> sint (GasConsumed resp) + sint fee
          \<and> sint (GasConsumed resp) + sint fee < 2 ^ 63 \<longrightarrow>
        sint (GasConsumed resp + fee) = sint (GasConsumed resp) + sint fee)"
proof (intro conjI impI)
  show "Invoke c contract fee method args h =
      (case signAndPushInvocationTx (client c) (Script resp) (acc c) (GasConsumed resp + fee) 0
              (cosignerAcc c)
              (h @ [RLock SwitchLock, Rpc (InvokeFunction contract method params (cosigner c))]) of
         Inl err \<Rightarrow>
           (Returns (Inl err),
            h @ [RLock SwitchLock,
                 Rpc (InvokeFunction contract method params (cosigner c)),
                 Rpc (SignAndPushInvocationTx (Script resp) (acc c) (GasConsumed resp + fee) 0
                        (cosignerAcc c)),
                 RUnlock SwitchLock])
       | Inr txHash \<Rightarrow>
           (Returns (Inr ()),
            h @ [RLock SwitchLock,
                 Rpc (InvokeFunction contract method params (cosigner c)),
                 Rpc (SignAndPushInvocationTx (Script resp) (acc c) (GasConsumed resp + fee) 0
                        (cosignerAcc c)),
                 LogDebug ''neo client invoke'',
                 RUnlock SwitchLock]))"
    using assms
    by (simp add: Invoke_def withRLock_def request_def Let_def split: sum.splits)
next
  assume "- (2 ^ 63) \<le> sint (GasConsumed resp) + sint fee
          \<and> sint (GasConsumed resp) + sint fee < 2 ^ 63"
  then show "sint (GasConsumed resp + fee) = sint (GasConsumed resp) + sint fee"
    by (simp add: sint_add_no_overflow)
qed

text \<open>With 1000 of consumed gas and an extra fee of 10: the system fee is 1010.\<close>

theorem Invoke_halt_pushes_with_sysFee_witness:
  "State halt_report = HaltState \<and> Script halt_report \<noteq> []
   \<and> Invoke (new_client node_ok) (Uint160 [5]) 10 ''put'' [ArgInt64 3, ArgString ''x''] [] =
      (Returns (Inr ()),
       [RLock SwitchLock,
        Rpc (InvokeFunction (Uint160 [5]) ''put''
               [Parameter IntegerType (ValBigInt 3), Parameter StringType (ValString ''x'')]
               (cosigner (new_client node_ok))),
        Rpc (SignAndPushInvocationTx [0x0C, 0x01] (acc (new_client node_ok)) 1010 0
               (cosignerAcc (new_client node_ok))),
        LogDebug ''neo client invoke'',
        RUnlock SwitchLock])
   \<and> sint (GasConsumed halt_report + 10) = 1010"
proof -
  have b: "toStackParameters [ArgInt64 3, ArgString ''x''] [] =
      Returns (Inr [Parameter IntegerType (ValBigInt 3), Parameter StringType (ValString ''x'')])"
    by simp
  have c: "invokeFunction (client (new_client node_ok)) (Uint160 [5]) ''put''
      [Parameter IntegerType (ValBigInt 3), Parameter StringType (ValString ''x'')]
      (cosigner (new_client node_ok)) ([] @ [RLock SwitchLock]) = Inr halt_report"
    by (simp add: new_client_node node_ok_def)
  have d: "State halt_report = HaltState"
    by (simp add: halt_report_def HaltState_def)
  have e: "Script halt_report \<noteq> []"
    by (simp add: halt_report_def)
  have push: "signAndPushInvocationTx (client (new_client node_ok)) script a sysFee netFee cs hh =
      Inr (Uint256 [7])" for script a sysFee netFee cs hh
    by (simp add: new_client_node node_ok_def)
  have gas: "GasConsumed halt_report = 1000" and script: "Script halt_report = [0x0C, 0x01]"
    by (simp_all add: halt_report_def)
  show ?thesis
    using Invoke_halt_pushes_with_sysFee [OF new_client_active [of node_ok] b c d e, of 10] d e
    by (simp add: push gas script)
qed

section \<open>Waiting with a cancelled context\<close>

text \<open>
  The claim C8 as it is written promises a \<open>nil\<close> error for every call of \<open>Wait\<close> with
  a context that is already cancelled. On a client in inactive mode the flag is tested
  first: the call returns \<open>ErrConnectionLost\<close>, with no height query.
\<close>

theorem Wait_cancelled_context_inactive:
  "Wait lost_client ctx_cancelled 10 [] =
     Some (Inl ErrConnectionLost, [RLock SwitchLock, RUnlock SwitchLock])"
  by (simp add: Wait_def Wait_body_def lost_client_def)

text \<open>
  C8, as the code has it. With a context that is cancelled at the call and stays so,
  \<open>Wait\<close> on an active client returns at once with a \<open>nil\<close> error after exactly one
  height query: the initial one, logged when it fails; the loop finds the context done
  before it sends a query of its own. On an inactive client it returns
  \<open>ErrConnectionLost\<close> and sends no height query.
\<close>

theorem Wait_cancelled_context:
  assumes "\<And>e. ctx (h @ e)"
  shows "(\<not> inactive c \<longrightarrow>
            Wait c ctx n h =
              Some (Inr (),
                    h @ [RLock SwitchLock, Rpc GetBlockCount]
                      @ (case getBlockCount (client c) (h @ [RLock SwitchLock]) of
                           Inl err \<Rightarrow> [LogError ''can't get blockchain height'' err]
                         | Inr height \<Rightarrow> [])
                      @ [RUnlock SwitchLock])
            \<and> height_queries (snd (the (Wait c ctx n h))) = height_queries h + 1)
    \<and> (inactive c \<longrightarrow>
            Wait c ctx n h =
              Some (Inl ErrConnectionLost, h @ [RLock SwitchLock, RUnlock SwitchLock])
            \<and> height_queries (snd (the (Wait c ctx n h))) = height_queries h)"
proof (intro conjI impI)
  assume active: "\<not> inactive c"
  show main: "Wait c ctx n h =
      Some (Inr (),
            h @ [RLock SwitchLock, Rpc GetBlockCount]
              @ (case getBlockCount (client c) (h @ [RLock SwitchLock]) of
                   Inl err \<Rightarrow> [LogError ''can't get blockchain height'' err]
                 | Inr height \<Rightarrow> [])
              @ [RUnlock SwitchLock])"
  proof (cases "getBlockCount (client c) (h @ [RLock SwitchLock])")
    case (Inl err)
    with active show ?thesis
      by (simp add: Wait_def Wait_body_def request_def)
  next
    case (Inr height)
    have "ctx (h @ [RLock SwitchLock, Rpc GetBlockCount])"
      by (rule assms)
    then have "Wait_loop c ctx height n (h @ [RLock SwitchLock, Rpc GetBlockCount]) =
        Some (Inr (), h @ [RLock SwitchLock, Rpc GetBlockCount])"
      by (rule Wait_loop_done)
    with Inr active show ?thesis
      by (simp add: Wait_def Wait_body_def request_def)
  qed
  then show "height_queries (snd (the (Wait c ctx n h))) = height_queries h + 1"
    by (simp add: height_queries_def rpcs_append split: sum.splits)
next
  assume lost: "inactive c"
  then show lost_result: "Wait c ctx n h =
      Some (Inl ErrConnectionLost, h @ [RLock SwitchLock, RUnlock SwitchLock])"
    by (simp add: Wait_def Wait_body_def)
  then show "height_queries (snd (the (Wait c ctx n h))) = height_queries h"
    by (simp add: height_queries_def rpcs_append)
qed

text \<open>On an active client whose endpoint answers, with the cancelled context.\<close>

theorem Wait_cancelled_context_witness:
  "ctx_cancelled []
   \<and> Wait (new_client node_ok) ctx_cancelled 10 [] =
       Some (Inr (), [RLock SwitchLock, Rpc GetBlockCount, RUnlock SwitchLock])
   \<and> height_queries (snd (the (Wait (new_client node_ok) ctx_cancelled 10 []))) = 1"
proof -
  have a: "ctx_cancelled ([] @ e)" for e
    by (simp add: ctx_cancelled_def)
  have b: "getBlockCount (client (new_client node_ok)) ([] @ [RLock SwitchLock]) = Inr 5"
    by (simp add: new_client_node node_ok_def)
  show ?thesis
    using Wait_cancelled_context [where c = "new_client node_ok" and ctx = ctx_cancelled
          and h = "[]" and n = 10, OF a]
      new_client_active [of node_ok] a [of "[]"] b
    by (simp add: height_queries_def)
qed

section \<open>Switching to inactive mode\<close>

text \<open>
  The claim C9 as it is written calls the switch to inactive mode idempotent.
  \<open>inactiveMode\<close> tests nothing before it closes the channel: a second call on the
  client that the first call left behind panics on the closed channel.
\<close>

theorem inactiveMode_twice_panics:
  "inactiveMode (new_client node_ok) [] =
     (Returns (), (new_client node_ok)\<lparr>notifications := ChanClosed, inactive := True\<rparr>,
      [Lock SwitchLock, CloseNotifications, InactiveModeCb, Unlock SwitchLock])
   \<and> fst (inactiveMode ((new_client node_ok)\<lparr>notifications := ChanClosed, inactive := True\<rparr>)
            [Lock SwitchLock, CloseNotifications, InactiveModeCb, Unlock SwitchLock]) =
     Panics (RuntimeError ''close of closed channel'')"
  by (simp add: inactiveMode_def Let_def new_client_def)

text \<open>
  C9, as the code has it. One call of \<open>inactiveMode\<close> on a client whose notification
  channel is open (the switch from active to inactive) closes the channel exactly once,
  sets the inactive flag, and calls the callback exactly once when one is registered
  (not at all otherwise), all between one \<open>Lock\<close> and one \<open>Unlock\<close> of the switch lock.
  The channel is open before the call and closed after it.
\<close>

theorem inactiveMode_single_call:
  assumes "notifications c = ChanOpen"
  shows "inactiveMode c h =
      (Returns (), c\<lparr>notifications := ChanClosed, inactive := True\<rparr>,
       h @ [Lock SwitchLock, CloseNotifications]
         @ (case inactiveModeCb (cfg c) of None \<Rightarrow> [] | Some cb \<Rightarrow> [InactiveModeCb])
         @ [Unlock SwitchLock])
    \<and> NotificationChannel c = ChanOpen
    \<and> NotificationChannel (fst (snd (inactiveMode c h))) = ChanClosed
    \<and> inactive (fst (snd (inactiveMode c h)))"
  using assms
  by (simp add: inactiveMode_def NotificationChannel_def Let_def split: option.splits)

text \<open>On a new client with a callback, and on one without.\<close>

theorem inactiveMode_single_call_witness:
  "notifications (new_client node_ok) = ChanOpen
   \<and> inactiveMode (new_client node_ok) [] =
      (Returns (), (new_client node_ok)\<lparr>notifications := ChanClosed, inactive := True\<rparr>,
       [Lock SwitchLock, CloseNotifications, InactiveModeCb, Unlock SwitchLock])
   \<and> snd (snd (inactiveMode ((new_client node_ok)\<lparr>cfg := \<lparr>waitInterval = 500, inactiveModeCb = None\<rparr>\<rparr>) [])) =
       [Lock SwitchLock, CloseNotifications, Unlock SwitchLock]"
proof -
  have a: "notifications (new_client node_ok) = ChanOpen"
    by (simp add: new_client_def)
  have b: "notifications ((new_client node_ok)\<lparr>cfg := \<lparr>waitInterval = 500, inactiveModeCb = None\<rparr>\<rparr>) = ChanOpen"
    by (simp add: new_client_def)
  have cb: "inactiveModeCb (cfg (new_client node_ok)) = Some ()"
    by (simp add: new_client_def)
  show ?thesis
    using a inactiveMode_single_call [OF a, of "[]"] inactiveMode_single_call [OF b, of "[]"]
    by (simp add: cb)
qed

section \<open>Failed queries of the read methods\<close>

text \<open>
  The claim C10 as it is written makes \<open>MagicNumber\<close> the only read method that does
  not pass the error of its query to the caller. \<open>Wait\<close>, which only reads the height,
  does not either: on the endpoint that is down it logs the failed query and returns
  \<open>nil\<close>.
\<close>

theorem Wait_swallows_query_error:
  "getBlockCount (client (new_client node_down)) [RLock SwitchLock] = Inl timeout
   \<and> Wait (new_client node_down) ctx_background 1 [] =
       Some (Inr (), [RLock SwitchLock, Rpc GetBlockCount,
                      LogError ''can't get blockchain height'' timeout, RUnlock SwitchLock])"
  by (simp add: Wait_def Wait_body_def request_def new_client_def node_down_def)

text \<open>
  C10, as the code has it. On an active client \<open>MagicNumber\<close> panics with the error of
  its query whenever the query fails (the deferred unlock still runs). Every other
  method that returns a value read from the chain returns the error of a failed query
  to its caller, as it is (\<open>BlockCount\<close>, \<open>Committee\<close>, \<open>TxHeight\<close>, \<open>TxHalt\<close>,
  \<open>GetDesignateHash\<close>, \<open>GasBalance\<close>, \<open>TestInvoke\<close>) or wrapped (\<open>MsPerBlock\<close>,
  \<open>IsValidScript\<close>, \<open>NeoFSAlphabetList\<close>). \<open>Wait\<close> is the one other public method that
  does not pass a failed query on: it logs it and returns \<open>nil\<close>.
\<close>

theorem query_errors_of_read_methods:
  assumes "\<not> inactive c"
  shows "(getNetwork (client c) (h @ [RLock SwitchLock]) = Inl err \<longrightarrow>
            MagicNumber c h =
              (Panics (PanicError err), h @ [RLock SwitchLock, Rpc GetNetwork, RUnlock SwitchLock]))
    \<and> (getBlockCount (client c) (h @ [RLock SwitchLock]) = Inl err \<longrightarrow>
            fst (BlockCount c h) = Inl err)
    \<and> (getCommittee (client c) (h @ [RLock SwitchLock]) = Inl err \<longrightarrow>
            fst (Committee c h) = Inl err)
    \<and> (getTransactionHeight (client c) tx (h @ [RLock SwitchLock]) = Inl err \<longrightarrow>
            fst (TxHeight c tx h) = Inl err)
    \<and> (getApplicationLog (client c) tx trigger_Application (h @ [RLock SwitchLock]) = Inl err \<longrightarrow>
            fst (TxHalt c tx h) = Inl err)
    \<and> (getNativeContractHash (client c) nativenames_Designation (h @ [RLock SwitchLock]) = Inl err \<longrightarrow>
            fst (GetDesignateHash c h) = Inl err)
    \<and> (getVersion (client c) (h @ [RLock SwitchLock]) = Inl err \<longrightarrow>
            fst (MsPerBlock c h) = Inl (Errorf ''getVersion'' err))
    \<and> (invokeScript (client c) script signers (h @ [RLock SwitchLock]) = Inl err \<longrightarrow>
            fst (IsValidScript c script signers h) = Inl (Errorf ''invokeScript'' err))
    \<and> (getNativeContractHash (client c) nativenames_Gas (h @ [RLock SwitchLock]) = Inl err \<longrightarrow>
            fst (GasBalance c h) = Inl err)
    \<and> (getNativeContractHash (client c) nativenames_Gas (h @ [RLock SwitchLock]) = Inr gas \<and>
        nep17BalanceOf (client c) gas (GetScriptHash (acc c))
          (h @ [RLock SwitchLock, Rpc (GetNativeContractHash nativenames_Gas)]) = Inl err \<longrightarrow>
            fst (GasBalance c h) = Inl err)
    \<and> (getBlockCount (client c) (h @ [RLock SwitchLock]) = Inl err \<longrightarrow>
            fst (NeoFSAlphabetList c h) =
              Inl (Errorf ''can't get alphabet nodes role list''
                     (Errorf ''can't get chain height'' err)))
    \<and> (getBlockCount (client c) (h @ [RLock SwitchLock]) = Inr height \<and>
        getDesignatedByRole (client c) noderoles_NeoFSAlphabet height
          (h @ [RLock SwitchLock, Rpc GetBlockCount]) = Inl err \<longrightarrow>
            fst (NeoFSAlphabetList c h) = Inl (Errorf ''can't get alphabet nodes role list'' err))
    \<and> (toStackParameters args [] = Returns (Inr params) \<and>
        invokeFunction (client c) contract meth params (cosigner_test c)
          (h @ [RLock SwitchLock]) = Inl err \<longrightarrow>
            fst (TestInvoke c contract meth args h) = Returns (Inl err))
    \<and> (getBlockCount (client c) (h @ [RLock SwitchLock]) = Inl err \<longrightarrow>
            Wait c ctx n h =
              Some (Inr (), h @ [RLock SwitchLock, Rpc GetBlockCount,
                                 LogError ''can't get blockchain height'' err,
                                 RUnlock SwitchLock]))"
proof (intro conjI impI)
  assume "getNetwork (client c) (h @ [RLock SwitchLock]) = Inl err"
  with assms show "MagicNumber c h =
      (Panics (PanicError err), h @ [RLock SwitchLock, Rpc GetNetwork, RUnlock SwitchLock])"
    by (simp add: MagicNumber_def withRLock_def request_def)
next
  assume "getBlockCount (client c) (h @ [RLock SwitchLock]) = Inl err"
  with assms show "fst (BlockCount c h) = Inl err"
    by (simp add: BlockCount_def withRLock_def request_def)
next
  assume "getCommittee (client c) (h @ [RLock SwitchLock]) = Inl err"
  with assms show "fst (Committee c h) = Inl err"
    by (simp add: Committee_def withRLock_def request_def)
next
  assume "getTransactionHeight (client c) tx (h @ [RLock SwitchLock]) = Inl err"
  with assms show "fst (TxHeight c tx h) = Inl err"
    by (simp add: TxHeight_def withRLock_def request_def)
next
  assume "getApplicationLog (client c) tx trigger_Application (h @ [RLock SwitchLock]) = Inl err"
  with assms show "fst (TxHalt c tx h) = Inl err"
    by (simp add: TxHalt_def withRLock_def request_def)
next
  assume "getNativeContractHash (client c) nativenames_Designation (h @ [RLock SwitchLock]) = Inl err"
  with assms show "fst (GetDesignateHash c h) = Inl err"
    by (simp add: GetDesignateHash_def withRLock_def request_def)
next
  assume "getVersion (client c) (h @ [RLock SwitchLock]) = Inl err"
  with assms show "fst (MsPerBlock c h) = Inl (Errorf ''getVersion'' err)"
    by (simp add: MsPerBlock_def withRLock_def request_def)
next
  assume "invokeScript (client c) script signers (h @ [RLock SwitchLock]) = Inl err"
  with assms show "fst (IsValidScript c script signers h) = Inl (Errorf ''invokeScript'' err)"
    by (simp add: IsValidScript_def withRLock_def request_def)
next
  assume "getNativeContractHash (client c) nativenames_Gas (h @ [RLock SwitchLock]) = Inl err"
  with assms show "fst (GasBalance c h) = Inl err"
    by (simp add: GasBalance_def withRLock_def request_def)
next
  assume "getNativeContractHash (client c) nativenames_Gas (h @ [RLock SwitchLock]) = Inr gas \<and>
        nep17BalanceOf (client c) gas (GetScriptHash (acc c))
          (h @ [RLock SwitchLock, Rpc (GetNativeContractHash nativenames_Gas)]) = Inl err"
  with assms show "fst (GasBalance c h) = Inl err"
    by (simp add: GasBalance_def withRLock_def request_def)
next
  assume "getBlockCount (client c) (h @ [RLock SwitchLock]) = Inl err"
  with assms show "fst (NeoFSAlphabetList c h) =
      Inl (Errorf ''can't get alphabet nodes role list'' (Errorf ''can't get chain height'' err))"
    by (simp add: NeoFSAlphabetList_def roleList_def withRLock_def request_def)
next
  assume "getBlockCount (client c) (h @ [RLock SwitchLock]) = Inr height \<and>
        getDesignatedByRole (client c) noderoles_NeoFSAlphabet height
          (h @ [RLock SwitchLock, Rpc GetBlockCount]) = Inl err"
  with assms show "fst (NeoFSAlphabetList c h) = Inl (Errorf ''can't get alphabet nodes role list'' err)"
    by (simp add: NeoFSAlphabetList_def roleList_def withRLock_def request_def)
next
  assume "toStackParameters args [] = Returns (Inr params) \<and>
        invokeFunction (client c) contract meth params (cosigner_test c)
          (h @ [RLock SwitchLock]) = Inl err"
  with assms show "fst (TestInvoke c contract meth args h) = Returns (Inl err)"
    by (simp add: TestInvoke_def withRLock_def request_def)
next
  assume "getBlockCount (client c) (h @ [RLock SwitchLock]) = Inl err"
  with assms show "Wait c ctx n h =
      Some (Inr (), h @ [RLock SwitchLock, Rpc GetBlockCount,
                         LogError ''can't get blockchain height'' err, RUnlock SwitchLock])"
    by (simp add: Wait_def Wait_body_def request_def)
qed

text \<open>On the endpoint that is down.\<close>

theorem query_errors_of_read_methods_witness:
  "MagicNumber (new_client node_down) [] =
      (Panics (PanicError timeout), [RLock SwitchLock, Rpc GetNetwork, RUnlock SwitchLock])
   \<and> fst (BlockCount (new_client node_down) []) = Inl timeout
   \<and> fst (Committee (new_client node_down) []) = Inl timeout
   \<and> fst (TxHeight (new_client node_down) (Uint256 [7]) []) = Inl timeout
   \<and> fst (TxHalt (new_client node_down) (Uint256 [7]) []) = Inl timeout
   \<and> fst (GetDesignateHash (new_client node_down) []) = Inl timeout
   \<and> fst (MsPerBlock (new_client node_down) []) = Inl (Errorf ''getVersion'' timeout)
   \<and> fst (IsValidScript (new_client node_down) [0x0C] [] []) = Inl (Errorf ''invokeScript'' timeout)
   \<and> fst (GasBalance (new_client node_down) []) = Inl timeout
   \<and> fst (NeoFSAlphabetList (new_client node_down) []) =
       Inl (Errorf ''can't get alphabet nodes role list'' (Errorf ''can't get chain height'' timeout))
   \<and> fst (TestInvoke (new_client node_down) (Uint160 [5]) ''get'' [ArgInt64 3] []) =
       Returns (Inl timeout)
   \<and> Wait (new_client node_down) ctx_background 3 [] =
       Some (Inr (), [RLock SwitchLock, Rpc GetBlockCount,
                      LogError ''can't get blockchain height'' timeout, RUnlock SwitchLock])"
proof -
  have b: "toStackParameters [ArgInt64 3] [] =
      Returns (Inr [Parameter IntegerType (ValBigInt 3)])"
    by simp
  show ?thesis
    using query_errors_of_read_methods [OF new_client_active [of node_down],
        where h = "[]" and err = timeout and tx = "Uint256 [7]"
          and script = "[0x0C]" and signers = "[]" and args = "[ArgInt64 3]"
          and params = "[Parameter IntegerType (ValBigInt 3)]" and contract = "Uint160 [5]"
          and meth = "''get''" and ctx = ctx_background and n = 3]
      b
    by (simp add: new_client_node node_down_def)
qed

end
